theory Spec2Isabelle
  imports Complex_Main
begin

section \<open>Python values used by the pipeline\<close>

text \<open>
  The repository is Python. Its strings are modelled as \<^typ>\<open>string\<close>, one \<^typ>\<open>char\<close>
  per code point (so the model covers the code points below 256), its dictionaries as
  association lists in insertion order, and every exception a function can raise or catch
  as a value of \<open>exn\<close>.
\<close>

datatype exn =
    JSONDecodeError
  | TypeError
  | AttributeError
  | KeyError
  | ValueError
  | RuntimeError
  | OverflowError
  | IndexError
  | ProviderError
  | sqlite3_Error

subsection \<open>str methods\<close>

text \<open>
  \<open>str.isspace\<close> on one character: the code points below 256 that Python treats as
  whitespace are 9..13, 28..32, 133 and 160. \<open>str.strip()\<close> and \<open>str.split()\<close>
  without arguments use this notion.
\<close>

definition isspace :: "char \<Rightarrow> bool" where
  "isspace c =
     (let n = (of_char c :: nat)
      in (9 \<le> n \<and> n \<le> 13) \<or> (28 \<le> n \<and> n \<le> 32) \<or> n = 133 \<or> n = 160)"

definition lstrip :: "string \<Rightarrow> string" where
  "lstrip s = dropWhile isspace s"

definition rstrip :: "string \<Rightarrow> string" where
  "rstrip s = rev (dropWhile isspace (rev s))"

definition strip :: "string \<Rightarrow> string" where
  "strip s = rstrip (lstrip s)"

definition startswith :: "string \<Rightarrow> string \<Rightarrow> bool" where
  "startswith s p = (take (length p) s = p)"

definition endswith :: "string \<Rightarrow> string \<Rightarrow> bool" where
  "endswith s p = (length p \<le> length s \<and> drop (length s - length p) s = p)"

text \<open>\<open>s.find(c)\<close> and \<open>s.rfind(c)\<close> for a one-character needle: an index, or -1.\<close>

definition str_find :: "string \<Rightarrow> char \<Rightarrow> int" where
  "str_find s c = (if c \<in> set s then int (length (takeWhile (\<lambda>x. x \<noteq> c) s)) else - 1)"

definition str_rfind :: "string \<Rightarrow> char \<Rightarrow> int" where
  "str_rfind s c =
     (if c \<in> set s then int (length s) - 1 - int (length (takeWhile (\<lambda>x. x \<noteq> c) (rev s)))
      else - 1)"

text \<open>\<open>s[i:j]\<close> with both bounds given; a negative bound counts from the end.\<close>

definition slice :: "string \<Rightarrow> int \<Rightarrow> int \<Rightarrow> string" where
  "slice s i j =
     (let n = int (length s);
          lo = (if i < 0 then max (n + i) 0 else min i n);
          hi = (if j < 0 then max (n + j) 0 else min j n)
      in take (nat (hi - lo)) (drop (nat lo) s))"

text \<open>\<open>s.replace(c, '')\<close> for a one-character \<open>c\<close>.\<close>

definition remove_char :: "char \<Rightarrow> string \<Rightarrow> string" where
  "remove_char c s = filter (\<lambda>x. x \<noteq> c) s"

text \<open>
  \<open>s.split()\<close>: the maximal runs of non-whitespace characters. The second argument
  holds the current word, reversed.
\<close>

fun split_acc :: "string \<Rightarrow> string \<Rightarrow> string list" where
  "split_acc [] w = (if w = [] then [] else [rev w])"
| "split_acc (c # cs) w =
     (if isspace c then (if w = [] then split_acc cs [] else rev w # split_acc cs [])
      else split_acc cs (c # w))"

definition str_split :: "string \<Rightarrow> string list" where
  "str_split s = split_acc s []"

text \<open>\<open>p in s\<close> for two strings: \<open>p\<close> occurs in \<open>s\<close> as a contiguous substring.\<close>

fun is_substring :: "string \<Rightarrow> string \<Rightarrow> bool" where
  "is_substring p [] = (p = [])"
| "is_substring p (c # cs) = (take (length p) (c # cs) = p \<or> is_substring p cs)"

subsection \<open>Values decoded from JSON\<close>

text \<open>
  What \<open>json.loads\<close> can return: \<open>None\<close>, a bool, an int, a float, a str, a list or a
  dict. A float is its mathematical value, or one of the three special values.
\<close>

datatype pyfloat = Finite real | PosInf | NegInf | NaN

datatype json =
    JNull
  | JBool bool
  | JInt int
  | JFloat pyfloat
  | JStr string
  | JArr "json list"
  | JObj "(string \<times> json) list"

text \<open>\<open>d.get(k)\<close>, \<open>k in d\<close> and \<open>d[k] = v\<close> on a dict held as an association list.\<close>

definition dict_get :: "(string \<times> 'v) list \<Rightarrow> string \<Rightarrow> 'v option" where
  "dict_get d k = map_of d k"

definition dict_has :: "(string \<times> 'v) list \<Rightarrow> string \<Rightarrow> bool" where
  "dict_has d k = (k \<in> set (map fst d))"

fun dict_set :: "(string \<times> 'v) list \<Rightarrow> string \<Rightarrow> 'v \<Rightarrow> (string \<times> 'v) list" where
  "dict_set [] k v = [(k, v)]"
| "dict_set ((k', v') # d) k v = (if k' = k then (k, v) # d else (k', v') # dict_set d k v)"

text \<open>\<open>d.get(k, default)\<close> on a dict.\<close>

definition dict_get_default :: "(string \<times> 'v) list \<Rightarrow> string \<Rightarrow> 'v \<Rightarrow> 'v" where
  "dict_get_default d k dflt = (case dict_get d k of None \<Rightarrow> dflt | Some v \<Rightarrow> v)"

text \<open>\<open>sep.join(parts)\<close>.\<close>

fun join :: "string \<Rightarrow> string list \<Rightarrow> string" where
  "join sep [] = []"
| "join sep [p] = p"
| "join sep (p # q # ps) = p @ sep @ join sep (q # ps)"

text \<open>
  \<open>k in obj\<close> for a str \<open>k\<close>: key membership in a dict, element equality in a list,
  substring test in a str; TypeError on None, bool, int and float.
\<close>

fun py_in :: "string \<Rightarrow> json \<Rightarrow> exn + bool" where
  "py_in k (JObj d) = Inr (dict_has d k)"
| "py_in k (JArr xs) = Inr (JStr k \<in> set xs)"
| "py_in k (JStr s) = Inr (is_substring k s)"
| "py_in k _ = Inl TypeError"

text \<open>\<open>all(k in obj for k in ks)\<close>: stops at the first False, raises at the first raise.\<close>

fun py_all_in :: "string list \<Rightarrow> json \<Rightarrow> exn + bool" where
  "py_all_in [] obj = Inr True"
| "py_all_in (k # ks) obj =
     (case py_in k obj of
        Inl e \<Rightarrow> Inl e
      | Inr b \<Rightarrow> (if b then py_all_in ks obj else Inr False))"

text \<open>
  \<open>v < n\<close> and \<open>v > n\<close> for a decoded value \<open>v\<close> and an int \<open>n\<close>: numbers compare by
  value (a bool as 0 or 1, NaN compares False); any other operand raises TypeError.
\<close>

fun py_lt_int :: "json \<Rightarrow> int \<Rightarrow> exn + bool" where
  "py_lt_int (JInt i) n = Inr (i < n)"
| "py_lt_int (JBool b) n = Inr ((if b then 1 else 0) < n)"
| "py_lt_int (JFloat (Finite r)) n = Inr (r < of_int n)"
| "py_lt_int (JFloat NegInf) n = Inr True"
| "py_lt_int (JFloat PosInf) n = Inr False"
| "py_lt_int (JFloat NaN) n = Inr False"
| "py_lt_int _ n = Inl TypeError"

fun py_gt_int :: "json \<Rightarrow> int \<Rightarrow> exn + bool" where
  "py_gt_int (JInt i) n = Inr (i > n)"
| "py_gt_int (JBool b) n = Inr ((if b then 1 else 0) > n)"
| "py_gt_int (JFloat (Finite r)) n = Inr (r > of_int n)"
| "py_gt_int (JFloat NegInf) n = Inr False"
| "py_gt_int (JFloat PosInf) n = Inr True"
| "py_gt_int (JFloat NaN) n = Inr False"
| "py_gt_int _ n = Inl TypeError"

subsection \<open>A decoder for JSON text\<close>

text \<open>
  \<open>json.loads\<close> belongs to Python's standard library, not to the repository. The
  normalizer below takes the decoder as an argument, and its theorems hold for every
  decoder. \<open>json_loads\<close> is a decoder written after the library's scanner (whitespace
  is space, tab, line feed and carriage return; strings are strict about control
  characters; a number without fraction and exponent is an int; \<open>NaN\<close>, \<open>Infinity\<close> and
  \<open>-Infinity\<close> are accepted; a repeated key keeps its first position and its last
  value). It is used to evaluate the normalizer on concrete texts. Two simplifications:
  a float is the exact value of its literal, and a \<open>\u\<close> escape is decoded only below
  256, the range of \<^typ>\<open>char\<close>. The first argument of the mutually recursive functions
  bounds the number of nested and chained calls; \<open>json_loads\<close> starts with more than
  the length of the text.
\<close>

definition is_json_ws :: "char \<Rightarrow> bool" where
  "is_json_ws c = (c = CHR '' '' \<or> c = CHR 0x09 \<or> c = CHR 0x0A \<or> c = CHR 0x0D)"

definition skip_ws :: "string \<Rightarrow> string" where
  "skip_ws s = dropWhile is_json_ws s"

definition is_digit :: "char \<Rightarrow> bool" where
  "is_digit c = (48 \<le> (of_char c :: nat) \<and> (of_char c :: nat) \<le> 57)"

definition digits_val :: "string \<Rightarrow> nat" where
  "digits_val ds = foldl (\<lambda>a d. 10 * a + ((of_char d :: nat) - 48)) 0 ds"

definition hex_val :: "char \<Rightarrow> nat option" where
  "hex_val c =
     (let n = (of_char c :: nat)
      in if 48 \<le> n \<and> n \<le> 57 then Some (n - 48)
         else if 65 \<le> n \<and> n \<le> 70 then Some (n - 55)
         else if 97 \<le> n \<and> n \<le> 102 then Some (n - 87)
         else None)"

definition hex4 :: "char \<Rightarrow> char \<Rightarrow> char \<Rightarrow> char \<Rightarrow> nat option" where
  "hex4 a b c d =
     (case (hex_val a, hex_val b, hex_val c, hex_val d) of
        (Some w, Some x, Some y, Some z) \<Rightarrow> Some (((w * 16 + x) * 16 + y) * 16 + z)
      | _ \<Rightarrow> None)"

definition unescape :: "char \<Rightarrow> char option" where
  "unescape e =
     (if e = CHR 0x22 then Some (CHR 0x22)
      else if e = CHR 0x5C then Some (CHR 0x5C)
      else if e = CHR ''/'' then Some (CHR ''/'')
      else if e = CHR ''b'' then Some (CHR 0x08)
      else if e = CHR ''f'' then Some (CHR 0x0C)
      else if e = CHR ''n'' then Some (CHR 0x0A)
      else if e = CHR ''r'' then Some (CHR 0x0D)
      else if e = CHR ''t'' then Some (CHR 0x09)
      else None)"

text \<open>
  The body of a string literal, after its opening quote: the decoded string and the text
  after the closing quote. The second argument holds the decoded prefix, reversed.
\<close>

fun scan_string :: "string \<Rightarrow> string \<Rightarrow> (string \<times> string) option" where
  "scan_string [] acc = None"
| "scan_string (c # cs) acc =
     (if c = CHR 0x22 then Some (rev acc, cs)
      else if c = CHR 0x5C then
        (case cs of
           [] \<Rightarrow> None
         | e # cs' \<Rightarrow>
             (if e = CHR ''u'' then
                (case cs' of
                   h1 # h2 # h3 # h4 # cs'' \<Rightarrow>
                     (case hex4 h1 h2 h3 h4 of
                        None \<Rightarrow> None
                      | Some n \<Rightarrow>
                          (if n < 256 then scan_string cs'' (char_of n # acc) else None))
                 | _ \<Rightarrow> None)
              else
                (case unescape e of
                   None \<Rightarrow> None
                 | Some x \<Rightarrow> scan_string cs' (x # acc))))
      else if (of_char c :: nat) < 32 then None
      else scan_string cs (c # acc))"

text \<open>
  A number at the head of the text, after the library's pattern
  \<open>-?(0|[1-9][0-9]*)(\.[0-9]+)?([eE][-+]?[0-9]+)?\<close>: the value and the rest of the text.
\<close>

definition scan_int_part :: "string \<Rightarrow> (string \<times> string) option" where
  "scan_int_part s =
     (case s of
        [] \<Rightarrow> None
      | c # cs \<Rightarrow>
          (if c = CHR ''0'' then Some ([c], cs)
           else if is_digit c then Some (c # takeWhile is_digit cs, dropWhile is_digit cs)
           else None))"

definition scan_frac :: "string \<Rightarrow> (string \<times> string) option" where
  "scan_frac s =
     (case s of
        c # d # cs \<Rightarrow>
          (if c = CHR ''.'' \<and> is_digit d
           then Some (d # takeWhile is_digit cs, dropWhile is_digit cs)
           else None)
      | _ \<Rightarrow> None)"

definition scan_exp :: "string \<Rightarrow> (int \<times> string) option" where
  "scan_exp s =
     (case s of
        c # cs \<Rightarrow>
          (if c = CHR ''e'' \<or> c = CHR ''E'' then
             (case cs of
                d # ds \<Rightarrow>
                  (if is_digit d
                   then Some (int (digits_val (takeWhile is_digit cs)), dropWhile is_digit cs)
                   else if (d = CHR ''+'' \<or> d = CHR ''-'') \<and> ds \<noteq> [] \<and> is_digit (hd ds)
                   then Some ((if d = CHR ''-'' then - 1 else 1)
                                * int (digits_val (takeWhile is_digit ds)),
                              dropWhile is_digit ds)
                   else None)
              | [] \<Rightarrow> None)
           else None)
      | [] \<Rightarrow> None)"

definition float_of :: "bool \<Rightarrow> string \<Rightarrow> string \<Rightarrow> int \<Rightarrow> pyfloat" where
  "float_of neg ip fp e =
     (let m = real (digits_val (ip @ fp));
          k = e - int (length fp);
          v = (if 0 \<le> k then m * 10 ^ nat k else m / 10 ^ nat (- k))
      in Finite (if neg then - v else v))"

definition scan_number :: "string \<Rightarrow> (json \<times> string) option" where
  "scan_number s =
     (let neg = (s \<noteq> [] \<and> hd s = CHR ''-'');
          s1 = (if neg then tl s else s)
      in case scan_int_part s1 of
           None \<Rightarrow> None
         | Some (ip, s2) \<Rightarrow>
             (case scan_frac s2 of
                None \<Rightarrow>
                  (case scan_exp s2 of
                     None \<Rightarrow>
                       Some (JInt ((if neg then - 1 else 1) * int (digits_val ip)), s2)
                   | Some (e, s3) \<Rightarrow> Some (JFloat (float_of neg ip [] e), s3))
              | Some (fp, s3) \<Rightarrow>
                  (case scan_exp s3 of
                     None \<Rightarrow> Some (JFloat (float_of neg ip fp 0), s3)
                   | Some (e, s4) \<Rightarrow> Some (JFloat (float_of neg ip fp e), s4))))"

text \<open>The scanner's dispatch on the first character, for the values that do not nest.\<close>

definition scan_atom :: "string \<Rightarrow> (json \<times> string) option" where
  "scan_atom s =
     (if startswith s ''null'' then Some (JNull, drop 4 s)
      else if startswith s ''true'' then Some (JBool True, drop 4 s)
      else if startswith s ''false'' then Some (JBool False, drop 5 s)
      else
        (case scan_number s of
           Some r \<Rightarrow> Some r
         | None \<Rightarrow>
             (if startswith s ''NaN'' then Some (JFloat NaN, drop 3 s)
              else if startswith s ''Infinity'' then Some (JFloat PosInf, drop 8 s)
              else if startswith s ''-Infinity'' then Some (JFloat NegInf, drop 9 s)
              else None)))"

fun parse_value :: "nat \<Rightarrow> string \<Rightarrow> (json \<times> string) option"
  and parse_array :: "nat \<Rightarrow> string \<Rightarrow> json list \<Rightarrow> (json \<times> string) option"
  and parse_object :: "nat \<Rightarrow> string \<Rightarrow> (string \<times> json) list \<Rightarrow> (json \<times> string) option"
where
  "parse_value 0 s = None"
| "parse_value (Suc n) s =
     (case s of
        [] \<Rightarrow> None
      | c # cs \<Rightarrow>
          (if c = CHR 0x22 then
             (case scan_string cs [] of
                None \<Rightarrow> None
              | Some (str, rest) \<Rightarrow> Some (JStr str, rest))
           else if c = CHR ''{'' then
             (case skip_ws cs of
                [] \<Rightarrow> None
              | d # ds \<Rightarrow>
                  (if d = CHR ''}'' then Some (JObj [], ds)
                   else parse_object n (d # ds) []))
           else if c = CHR ''['' then
             (case skip_ws cs of
                [] \<Rightarrow> None
              | d # ds \<Rightarrow>
                  (if d = CHR '']'' then Some (JArr [], ds)
                   else parse_array n (d # ds) []))
           else scan_atom s))"
| "parse_array 0 s acc = None"
| "parse_array (Suc n) s acc =
     (case parse_value n s of
        None \<Rightarrow> None
      | Some (v, rest) \<Rightarrow>
          (case skip_ws rest of
             [] \<Rightarrow> None
           | d # ds \<Rightarrow>
               (if d = CHR '']'' then Some (JArr (rev (v # acc)), ds)
                else if d = CHR '','' then parse_array n (skip_ws ds) (v # acc)
                else None)))"
| "parse_object 0 s acc = None"
| "parse_object (Suc n) s acc =
     (case s of
        [] \<Rightarrow> None
      | q # cs \<Rightarrow>
          (if q \<noteq> CHR 0x22 then None
           else
             (case scan_string cs [] of
                None \<Rightarrow> None
              | Some (key, rest) \<Rightarrow>
                  (case skip_ws rest of
                     [] \<Rightarrow> None
                   | colon # after \<Rightarrow>
                       (if colon \<noteq> CHR '':'' then None
                        else
                          (case parse_value n (skip_ws after) of
                             None \<Rightarrow> None
                           | Some (v, rest') \<Rightarrow>
                               (case skip_ws rest' of
                                  [] \<Rightarrow> None
                                | d # ds \<Rightarrow>
                                    (if d = CHR ''}'' then Some (JObj (dict_set acc key v), ds)
                                     else if d = CHR '','' then
                                       parse_object n (skip_ws ds) (dict_set acc key v)
                                     else None))))))))"

definition json_loads :: "string \<Rightarrow> exn + json" where
  "json_loads s =
     (case parse_value (Suc (length s)) (skip_ws s) of
        None \<Rightarrow> Inl JSONDecodeError
      | Some (v, rest) \<Rightarrow> (if skip_ws rest = [] then Inr v else Inl JSONDecodeError))"

section \<open>The provider\<close>

text \<open>
  \<open>services/model_factory.py\<close>: the three backends, and what an agent keeps of the
  selection: the triple \<open>(client, model_name, provider)\<close> that \<open>ModelFactory.get_model\<close>
  returns. A client is the object the vendor's library built: \<open>Groq(api_key)\<close>,
  \<open>genai.GenerativeModel(model_name)\<close> or \<open>anthropic.Anthropic(api_key)\<close>.
\<close>

datatype ProviderType = GEMINI | GROQ | CLAUDE

datatype client = Groq string | GenerativeModel string | Anthropic string

record provider_handle =
  client :: client
  model_name :: string
  provider :: ProviderType

text \<open>
  The calls the code makes on a client, with the arguments it passes:
  \<open>client.chat.completions.create(model, messages, temperature, max_tokens, response_format)\<close>
  for Groq, \<open>client.generate_content(prompt)\<close> for Gemini and
  \<open>client.messages.create(model, max_tokens, temperature, system, messages)\<close> for Claude.
  An argument the call leaves out is \<open>None\<close>. The answer is outside the program: the
  call raises, or returns the object the code then reads: \<open>choices[i].message.content\<close>
  (each possibly \<open>None\<close>), \<open>text\<close>, or \<open>content[i].text\<close>.
\<close>

datatype request =
    ChatCompletionsCreate client string "(string \<times> string) list" "real option" nat "string option"
  | GenerateContent client string
  | MessagesCreate client string nat "real option" "string option" "(string \<times> string) list"

datatype response =
    Raises
  | ChatCompletion "string option list"
  | GenerateContentResponse string
  | Message "string list"

section \<open>Bias detection (agents/detector.py)\<close>

definition get_fallback_response :: json where
  "get_fallback_response =
     JObj [(''emotional_bias_score'', JInt 50),
           (''framing_bias_score'', JInt 50),
           (''omission_bias_score'', JInt 50),
           (''overall_bias_score'', JInt 50),
           (''biased_phrases'', JArr []),
           (''summary'', JStr ''Bias analysis unavailable - using fallback response'')]"

definition required :: "string list" where
  "required = [''emotional_bias_score'', ''framing_bias_score'', ''overall_bias_score'']"

text \<open>
  \<open>_extract_json\<close>, in two steps. \<open>strip_code_fences\<close> is the cleaning of the
  response text (strip, drop a leading \<open>```json\<close> and then a leading \<open>```\<close>, drop a
  trailing \<open>```\<close>, strip again). \<open>json_str\<close> is the slice from the first \<open>{\<close> to the
  last \<open>}\<close>, or \<open>None\<close> where the code returns early because one of them is missing.
\<close>

definition strip_code_fences :: "string \<Rightarrow> string" where
  "strip_code_fences text =
     (let cleaned = strip text;
          cleaned = (if startswith cleaned ''```json'' then drop 7 cleaned else cleaned);
          cleaned = (if startswith cleaned ''```'' then drop 3 cleaned else cleaned);
          cleaned = (if endswith cleaned ''```'' then take (length cleaned - 3) cleaned
                     else cleaned)
      in strip cleaned)"

definition json_str :: "string \<Rightarrow> string option" where
  "json_str text =
     (let cleaned = strip_code_fences text;
          start = str_find cleaned CHR ''{'';
          stop = str_rfind cleaned CHR ''}'' + 1
      in if start = - 1 \<or> stop = 0 then None else Some (slice cleaned start stop))"

text \<open>
  The decoder \<open>loads\<close> stands for \<open>json.loads\<close>. Both \<open>except\<close> clauses, the one for
  \<open>json.JSONDecodeError\<close> and the one for \<open>Exception\<close>, return the fallback response, so
  every exception raised inside the \<open>try\<close> block ends there: the decoder's, and the
  TypeError of \<open>field in result\<close> on a value that has no membership test.
\<close>

definition extract_json :: "(string \<Rightarrow> exn + json) \<Rightarrow> string \<Rightarrow> json" where
  "extract_json loads text =
     (if text = [] then get_fallback_response
      else
        (case json_str text of
           None \<Rightarrow> get_fallback_response
         | Some s \<Rightarrow>
             (case loads s of
                Inl e \<Rightarrow> get_fallback_response
              | Inr result \<Rightarrow>
                  (case py_all_in required result of
                     Inl e \<Rightarrow> get_fallback_response
                   | Inr ok \<Rightarrow> (if ok then result else get_fallback_response)))))"

definition create_bias_analysis_prompt :: "string \<Rightarrow> string" where
  \<open>create_bias_analysis_prompt article_text =
     join [CHR 0x0A]
       ['''',
        ''        Analyze this news article for specific, rewritable biases:'',
        '''',
        ''        ARTICLE: '' @ article_text,
        '''',
        ''        Identify specific phrases that need rewriting in these categories:'',
        ''        1. EMOTIONAL LANGUAGE: Loaded words, sensationalism, exaggeration'',
        ''        2. FRAMING BIAS: Oversimplification, binary thinking, selective framing  '',
        ''        3. OMISSION: Missing context, important facts, alternative views'',
        ''        4. PARTISAN LANGUAGE: Ideological slant, political leaning'',
        ''        5. JUDGMENTAL TERMS: Value judgments, moralizing language'',
        ''        6. METAPHORS/DRAMA: Dramatic framing, war/sports metaphors'',
        '''',
        ''        Return JSON with this exact structure:'',
        ''        {'',
        ''            "emotional_bias_score": 0-100,'',
        ''            "framing_bias_score": 0-100,'',
        ''            "omission_bias_score": 0-100,'',
        ''            "overall_bias_score": 0-100,'',
        ''            "biased_phrases": ['',
        ''                {'',
        ''                    "text": "exact problematic phrase from article",'',
        ''                    "bias_type": "emotional/framing/omission/partisan/judgmental/metaphor",'',
        ''                    "explanation": "detailed explanation of why this phrasing is biased",'',
        ''                    "suggested_replacement": "neutral alternative phrasing"'',
        ''                }'',
        ''            ],'',
        ''            "summary": "comprehensive analysis of main bias patterns found"'',
        ''        }'',
        '''',
        ''        Be specific and actionable for rewriting purposes.'',
        ''        '']\<close>

text \<open>
  The three provider-specific analyses. Each returns what the Python returns or the
  exception it lets through, and the list of calls it made on the client.
\<close>

definition analyze_chat_completion ::
  "(string \<Rightarrow> exn + json) \<Rightarrow> (request \<Rightarrow> response) \<Rightarrow> provider_handle \<Rightarrow> string
     \<Rightarrow> (exn + json) \<times> request list" where
  "analyze_chat_completion loads llm h prompt =
     (let req = ChatCompletionsCreate (client h) (model_name h)
                  [(''system'', ''You are an expert media bias analyst. Analyze articles for specific, rewritable biases and return valid JSON.''),
                   (''user'', prompt)]
                  (Some 0.1) 2000 (Some ''json_object'')
      in ((case llm req of
             ChatCompletion [] \<Rightarrow> Inl IndexError
           | ChatCompletion (result_text # _) \<Rightarrow>
               (case result_text of
                  None \<Rightarrow> Inr get_fallback_response
                | Some t \<Rightarrow> Inr (extract_json loads t))
           | Raises \<Rightarrow> Inl ProviderError
           | _ \<Rightarrow> Inl AttributeError),
          [req]))"

definition analyze_gemini ::
  "(string \<Rightarrow> exn + json) \<Rightarrow> (request \<Rightarrow> response) \<Rightarrow> provider_handle \<Rightarrow> string
     \<Rightarrow> (exn + json) \<times> request list" where
  "analyze_gemini loads llm h prompt =
     (let req = GenerateContent (client h) prompt
      in ((case llm req of
             GenerateContentResponse t \<Rightarrow> Inr (extract_json loads t)
           | Raises \<Rightarrow> Inl ProviderError
           | _ \<Rightarrow> Inl AttributeError),
          [req]))"

definition analyze_claude ::
  "(string \<Rightarrow> exn + json) \<Rightarrow> (request \<Rightarrow> response) \<Rightarrow> provider_handle \<Rightarrow> string
     \<Rightarrow> (exn + json) \<times> request list" where
  "analyze_claude loads llm h prompt =
     (let req = MessagesCreate (client h) (model_name h) 2000 (Some 0.1)
                  (Some ''You are an expert media bias analyst. Always respond with valid JSON.'')
                  [(''user'', prompt)]
      in ((case llm req of
             Message [] \<Rightarrow> Inl IndexError
           | Message (result_text # _) \<Rightarrow> Inr (extract_json loads result_text)
           | Raises \<Rightarrow> Inl ProviderError
           | _ \<Rightarrow> Inl AttributeError),
          [req]))"

text \<open>
  \<open>detect_biases\<close>: the guard on empty and short texts comes before the prompt is built
  and before any call; an exception of the analysis is caught and replaced by the
  fallback response. The result is paired with the calls made on the client.
\<close>

definition detect_biases ::
  "(string \<Rightarrow> exn + json) \<Rightarrow> (request \<Rightarrow> response) \<Rightarrow> provider_handle \<Rightarrow> string
     \<Rightarrow> json \<times> request list" where
  "detect_biases loads llm h article_text =
     (if article_text = [] \<or> length (strip article_text) < 10
      then (get_fallback_response, [])
      else
        (let prompt = create_bias_analysis_prompt article_text;
             (r, calls) =
               (case provider h of
                  GROQ \<Rightarrow> analyze_chat_completion loads llm h prompt
                | GEMINI \<Rightarrow> analyze_gemini loads llm h prompt
                | CLAUDE \<Rightarrow> analyze_claude loads llm h prompt)
         in ((case r of Inl e \<Rightarrow> get_fallback_response | Inr v \<Rightarrow> v), calls)))"

section \<open>Title rewriting (agents/rewriter.py)\<close>

text \<open>
  The prompt of \<open>rewrite_title_neutral\<close>. \<open>fmt\<close> stands for Python's formatting of a
  value inside an f-string.
\<close>

definition title_prompt ::
  "(json \<Rightarrow> string) \<Rightarrow> string \<Rightarrow> (string \<times> json) list \<Rightarrow> string" where
  "title_prompt fmt original_title bias_analysis =
     join [CHR 0x0A]
       ['''',
        ''        Rewrite this news headline to be neutral and factual:'',
        '''',
        ''        ORIGINAL: '' @ original_title,
        '''',
        ''        BIAS CONTEXT:'',
        ''        - Emotional bias: '' @ fmt (dict_get_default bias_analysis ''emotional_bias_score'' (JInt 0)) @ ''/100'',
        ''        - Framing bias: '' @ fmt (dict_get_default bias_analysis ''framing_bias_score'' (JInt 0)) @ ''/100'',
        '''',
        ''        GUIDELINES:'',
        ''        - Remove sensationalism and emotional language'',
        ''        - Keep core factual content'',
        ''        - Make it concise (under 80 characters if possible)'',
        ''        - Use neutral, descriptive language'',
        '''',
        ''        Return ONLY the rewritten headline.'',
        ''        '']"

text \<open>
  The last two lines of the \<open>try\<close> block: strip, delete every double quote, and keep the
  result only if its length is strictly between 10 and 120.
\<close>

definition clean_title :: "string \<Rightarrow> string" where
  "clean_title neutral_title = remove_char (CHR 0x22) (strip neutral_title)"

definition checked_title :: "string \<Rightarrow> string \<Rightarrow> string" where
  "checked_title neutral_title original_title =
     (if 10 < length (clean_title neutral_title) \<and> length (clean_title neutral_title) < 120
      then clean_title neutral_title
      else original_title)"

text \<open>
  \<open>rewrite_title_neutral\<close>. The comparison with 20 stands before the \<open>try\<close> block, so
  its TypeError (a score that is no number) and the AttributeError of \<open>get\<close> on an analysis
  that is no dict leave the function. Inside the \<open>try\<close> block every exception returns the
  original title. For Groq an empty or missing content is replaced by the original title
  (\<open>content or original_title\<close>) before the cleaning.
\<close>

definition rewrite_title_neutral ::
  "(json \<Rightarrow> string) \<Rightarrow> (request \<Rightarrow> response) \<Rightarrow> provider_handle \<Rightarrow> string \<Rightarrow> json
     \<Rightarrow> (exn + string) \<times> request list" where
  "rewrite_title_neutral fmt llm h original_title bias_analysis =
     (case bias_analysis of
        JObj d \<Rightarrow>
          (case py_lt_int (dict_get_default d ''overall_bias_score'' (JInt 0)) 20 of
             Inl e \<Rightarrow> (Inl e, [])
           | Inr low \<Rightarrow>
               (if low then (Inr original_title, [])
                else
                  (let prompt = title_prompt fmt original_title d
                   in (case provider h of
                         GROQ \<Rightarrow>
                           (let req = ChatCompletionsCreate (client h) (model_name h)
                                        [(''user'', prompt)] (Some 0.1) 100 None
                            in ((case llm req of
                                   ChatCompletion (content # _) \<Rightarrow>
                                     Inr (checked_title
                                            (case content of
                                               None \<Rightarrow> original_title
                                             | Some c \<Rightarrow> (if c = [] then original_title else c))
                                            original_title)
                                 | _ \<Rightarrow> Inr original_title),
                                [req]))
                       | GEMINI \<Rightarrow>
                           (let req = GenerateContent (client h) prompt
                            in ((case llm req of
                                   GenerateContentResponse t \<Rightarrow>
                                     Inr (checked_title t original_title)
                                 | _ \<Rightarrow> Inr original_title),
                                [req]))
                       | CLAUDE \<Rightarrow>
                           (let req = MessagesCreate (client h) (model_name h) 100 (Some 0.1)
                                        None [(''user'', prompt)]
                            in ((case llm req of
                                   Message (t # _) \<Rightarrow> Inr (checked_title t original_title)
                                 | _ \<Rightarrow> Inr original_title),
                                [req]))))))
      | _ \<Rightarrow> (Inl AttributeError, []))"

section \<open>The orchestrator (agents/orchestrator.py)\<close>

text \<open>
  The title step of \<open>analyze_article\<close>: \<open>neutral_title = original_title\<close>, replaced by the
  result of \<open>rewrite_title_neutral\<close> only if the title is not empty and the overall score
  is greater than 20. Python's \<open>and\<close> does not evaluate the comparison for an empty title.
\<close>

definition analyze_article_title ::
  "(json \<Rightarrow> string) \<Rightarrow> (request \<Rightarrow> response) \<Rightarrow> provider_handle \<Rightarrow> string \<Rightarrow> json
     \<Rightarrow> (exn + string) \<times> request list" where
  "analyze_article_title fmt llm rewriter_handle original_title bias_analysis =
     (if original_title = [] then (Inr original_title, [])
      else
        (case bias_analysis of
           JObj d \<Rightarrow>
             (case py_gt_int (dict_get_default d ''overall_bias_score'' (JInt 0)) 20 of
                Inl e \<Rightarrow> (Inl e, [])
              | Inr high \<Rightarrow>
                  (if high
                   then rewrite_title_neutral fmt llm rewriter_handle original_title bias_analysis
                   else (Inr original_title, [])))
         | _ \<Rightarrow> (Inl AttributeError, [])))"

text \<open>
  \<open>_assess_rewrite_quality\<close>. The word counts are ints and \<open>original_words * 0.5\<close> is a
  float; Python compares an int with a float by value, and the product is exact for every
  count below \<open>2^53\<close>, so the comparison is the one over the reals.
\<close>

definition assess_rewrite_quality :: "string \<Rightarrow> string \<Rightarrow> string" where
  "assess_rewrite_quality original rewritten =
     (if original = rewritten then ''no_change''
      else
        (let original_words = int (length (str_split original));
             rewritten_words = int (length (str_split rewritten))
         in if real_of_int \<bar>original_words - rewritten_words\<bar> > real_of_int original_words * 0.5
            then ''significant_change''
            else ''moderate_change''))"

text \<open>
  \<open>analyze_multiple_articles\<close>. A task is one call of \<open>analyze_article\<close>; what it does
  depends on the provider's answers, so its outcome is an argument of the model:
  \<open>analyze_article i body title source\<close> is the outcome of the task at position \<open>i\<close>,
  either the dict it returns or the exception it raises. An exception is an instance of
  \<open>Exception\<close> or of \<open>BaseException\<close> outside \<open>Exception\<close>
  (\<open>asyncio.CancelledError\<close> since Python 3.8), each with the text \<open>str\<close> gives for it,
  or it is \<open>KeyboardInterrupt\<close> or \<open>SystemExit\<close>.

  \<open>asyncio.gather\<close> with \<open>return_exceptions=True\<close> returns the outcomes in the order of
  the tasks, an exception as the exception object. \<open>KeyboardInterrupt\<close> and \<open>SystemExit\<close>
  are not collected: asyncio re-raises them through the event loop, so the batch itself
  raises and returns no list. Where several tasks raise one of the two, the model takes
  the first in task order.
\<close>

datatype raised =
    Exception string
  | BaseException string
  | KeyboardInterrupt
  | SystemExit

datatype item = Value json | ExceptionObject raised

fun gather_return_exceptions :: "(raised + json) list \<Rightarrow> raised + item list" where
  "gather_return_exceptions [] = Inr []"
| "gather_return_exceptions (outcome # outcomes) =
     (case outcome of
        Inl KeyboardInterrupt \<Rightarrow> Inl KeyboardInterrupt
      | Inl SystemExit \<Rightarrow> Inl SystemExit
      | Inl (Exception msg) \<Rightarrow>
          (case gather_return_exceptions outcomes of
             Inl e \<Rightarrow> Inl e
           | Inr results \<Rightarrow> Inr (ExceptionObject (Exception msg) # results))
      | Inl (BaseException msg) \<Rightarrow>
          (case gather_return_exceptions outcomes of
             Inl e \<Rightarrow> Inl e
           | Inr results \<Rightarrow> Inr (ExceptionObject (BaseException msg) # results))
      | Inr v \<Rightarrow>
          (case gather_return_exceptions outcomes of
             Inl e \<Rightarrow> Inl e
           | Inr results \<Rightarrow> Inr (Value v # results)))"

text \<open>
  The loop over the gathered results: \<open>isinstance(result, Exception)\<close> turns the result
  into \<open>{"error": str(result)}\<close>; every other result is appended as it is.
\<close>

definition process_result :: "item \<Rightarrow> item" where
  "process_result result =
     (case result of
        ExceptionObject (Exception msg) \<Rightarrow> Value (JObj [(''error'', JStr msg)])
      | _ \<Rightarrow> result)"

definition analyze_multiple_articles ::
  "(nat \<Rightarrow> string \<Rightarrow> string \<Rightarrow> string \<Rightarrow> raised + json) \<Rightarrow> (string \<times> string) list list
     \<Rightarrow> raised + item list" where
  "analyze_multiple_articles analyze_article articles =
     (let tasks =
            map (\<lambda>(i, article).
                   analyze_article i
                     (dict_get_default article ''body'' '''')
                     (dict_get_default article ''title'' '''')
                     (dict_get_default article ''source'' ''unknown''))
                (enumerate 0 articles)
      in case gather_return_exceptions tasks of
           Inl e \<Rightarrow> Inl e
         | Inr results \<Rightarrow> Inr (map process_result results))"

section \<open>Provider selection (services/model_factory.py)\<close>

text \<open>
  The selection reads the environment (\<open>os.getenv\<close>) and probes the backends with trial
  calls, whose answers are outside the program and may change from one call to the next:
  \<open>api t req\<close> is the answer to the call \<open>req\<close> made when \<open>t\<close> calls have been made
  before. The state counts the calls made on the backends and the runs of \<open>get_model\<close>.
\<close>

record world =
  api_calls :: nat
  get_model_calls :: nat

definition GEMINI_MODELS :: "string list" where
  "GEMINI_MODELS =
     [''models/gemini-2.0-flash'',
      ''models/gemini-2.0-flash-001'',
      ''models/gemini-flash-latest'',
      ''models/gemini-2.0-flash-lite'',
      ''models/gemini-1.5-flash-latest'']"

definition GROQ_MODELS :: "string list" where
  "GROQ_MODELS =
     [''llama-3.1-70b-versatile'',
      ''llama-3.1-8b-instant'',
      ''llama-3.1-405b-reasoning'']"

definition CLAUDE_MODELS :: "string list" where
  "CLAUDE_MODELS =
     [''claude-3-5-sonnet-20241022'',
      ''claude-3-opus-20240229'',
      ''claude-3-sonnet-20240229'']"

text \<open>
  The loops over the candidate models: the first model whose trial call returns a
  non-empty answer is selected; a trial that raises, or whose answer is empty, moves on
  to the next model; RuntimeError when no model is left.
\<close>

fun probe_groq ::
  "(nat \<Rightarrow> request \<Rightarrow> response) \<Rightarrow> client \<Rightarrow> string list \<Rightarrow> nat
     \<Rightarrow> (exn + provider_handle) \<times> nat" where
  "probe_groq api c [] t = (Inl RuntimeError, t)"
| "probe_groq api c (m # ms) t =
     (case api t (ChatCompletionsCreate c m [(''user'', ''Test'')] None 5 None) of
        ChatCompletion (Some content # _) \<Rightarrow>
          (if content \<noteq> []
           then (Inr \<lparr>client = c, model_name = m, provider = GROQ\<rparr>, Suc t)
           else probe_groq api c ms (Suc t))
      | _ \<Rightarrow> probe_groq api c ms (Suc t))"

fun probe_gemini ::
  "(nat \<Rightarrow> request \<Rightarrow> response) \<Rightarrow> string list \<Rightarrow> nat
     \<Rightarrow> (exn + provider_handle) \<times> nat" where
  "probe_gemini api [] t = (Inl RuntimeError, t)"
| "probe_gemini api (m # ms) t =
     (case api t (GenerateContent (GenerativeModel m) ''Test'') of
        GenerateContentResponse text \<Rightarrow>
          (if text \<noteq> []
           then (Inr \<lparr>client = GenerativeModel m, model_name = m, provider = GEMINI\<rparr>, Suc t)
           else probe_gemini api ms (Suc t))
      | _ \<Rightarrow> probe_gemini api ms (Suc t))"

fun probe_claude ::
  "(nat \<Rightarrow> request \<Rightarrow> response) \<Rightarrow> client \<Rightarrow> string list \<Rightarrow> nat
     \<Rightarrow> (exn + provider_handle) \<times> nat" where
  "probe_claude api c [] t = (Inl RuntimeError, t)"
| "probe_claude api c (m # ms) t =
     (case api t (MessagesCreate c m 5 None None [(''user'', ''Test'')]) of
        Message content \<Rightarrow>
          (if content \<noteq> []
           then (Inr \<lparr>client = c, model_name = m, provider = CLAUDE\<rparr>, Suc t)
           else probe_claude api c ms (Suc t))
      | _ \<Rightarrow> probe_claude api c ms (Suc t))"

text \<open>A missing or empty API key raises ValueError before any call is made.\<close>

definition get_groq_client ::
  "(string \<Rightarrow> string option) \<Rightarrow> (nat \<Rightarrow> request \<Rightarrow> response) \<Rightarrow> nat
     \<Rightarrow> (exn + provider_handle) \<times> nat" where
  "get_groq_client getenv api t =
     (case getenv ''GROQ_API_KEY'' of
        None \<Rightarrow> (Inl ValueError, t)
      | Some api_key \<Rightarrow>
          (if api_key = [] then (Inl ValueError, t)
           else probe_groq api (Groq api_key) GROQ_MODELS t))"

definition get_gemini_model ::
  "(string \<Rightarrow> string option) \<Rightarrow> (nat \<Rightarrow> request \<Rightarrow> response) \<Rightarrow> nat
     \<Rightarrow> (exn + provider_handle) \<times> nat" where
  "get_gemini_model getenv api t =
     (case getenv ''GEMINI_API_KEY'' of
        None \<Rightarrow> (Inl ValueError, t)
      | Some api_key \<Rightarrow>
          (if api_key = [] then (Inl ValueError, t)
           else probe_gemini api GEMINI_MODELS t))"

definition get_claude_client ::
  "(string \<Rightarrow> string option) \<Rightarrow> (nat \<Rightarrow> request \<Rightarrow> response) \<Rightarrow> nat
     \<Rightarrow> (exn + provider_handle) \<times> nat" where
  "get_claude_client getenv api t =
     (case getenv ''ANTHROPIC_API_KEY'' of
        None \<Rightarrow> (Inl ValueError, t)
      | Some api_key \<Rightarrow>
          (if api_key = [] then (Inl ValueError, t)
           else probe_claude api (Anthropic api_key) CLAUDE_MODELS t))"

text \<open>\<open>get_model\<close>: Groq first, then Gemini, then Claude; RuntimeError when all fail.\<close>

definition get_model ::
  "(string \<Rightarrow> string option) \<Rightarrow> (nat \<Rightarrow> request \<Rightarrow> response) \<Rightarrow> world
     \<Rightarrow> (exn + provider_handle) \<times> world" where
  "get_model getenv api w =
     (let (r, t) =
            (case get_groq_client getenv api (api_calls w) of
               (Inr h, t1) \<Rightarrow> (Inr h, t1)
             | (Inl e1, t1) \<Rightarrow>
                 (case get_gemini_model getenv api t1 of
                    (Inr h, t2) \<Rightarrow> (Inr h, t2)
                  | (Inl e2, t2) \<Rightarrow>
                      (case get_claude_client getenv api t2 of
                         (Inr h, t3) \<Rightarrow> (Inr h, t3)
                       | (Inl e3, t3) \<Rightarrow> (Inl RuntimeError, t3))))
      in (r, \<lparr>api_calls = t, get_model_calls = Suc (get_model_calls w)\<rparr>))"

text \<open>
  \<open>BiasAnalysisOrchestrator.__init__\<close> builds a \<open>BiasDetector\<close>, an \<open>ArticleRewriter\<close> and
  a \<open>BiasExplainer\<close>, in this order. The constructor of each is one line,
  \<open>self.client, self.model_name, self.provider = ModelFactory.get_model()\<close>, and no other
  line of the repository assigns these attributes. An exception of \<open>get_model\<close> leaves
  the constructor.
\<close>

record orchestrator =
  detector :: provider_handle
  rewriter :: provider_handle
  explainer :: provider_handle
  max_concurrent :: nat

definition orchestrator_init ::
  "(string \<Rightarrow> string option) \<Rightarrow> (nat \<Rightarrow> request \<Rightarrow> response) \<Rightarrow> nat \<Rightarrow> world
     \<Rightarrow> (exn + orchestrator) \<times> world" where
  "orchestrator_init getenv api n w =
     (case get_model getenv api w of
        (Inl e, w1) \<Rightarrow> (Inl e, w1)
      | (Inr d, w1) \<Rightarrow>
          (case get_model getenv api w1 of
             (Inl e, w2) \<Rightarrow> (Inl e, w2)
           | (Inr r, w2) \<Rightarrow>
               (case get_model getenv api w2 of
                  (Inl e, w3) \<Rightarrow> (Inl e, w3)
                | (Inr x, w3) \<Rightarrow>
                    (Inr \<lparr>detector = d, rewriter = r, explainer = x, max_concurrent = n\<rparr>,
                     w3))))"

section \<open>The article store (database/news_db.py)\<close>

text \<open>
  The table \<open>data_news\<close>: one record per row, in rowid order. \<open>bias\<close> and
  \<open>rewritten_article\<close> are \<open>None\<close> for SQL's NULL. \<open>last_rowid\<close> is the counter behind
  \<open>AUTOINCREMENT\<close>. An article is a dict from field names to strings.
\<close>

record row =
  row_id :: nat
  title :: string
  source :: string
  date :: string
  url :: string
  body :: string
  category :: string
  bias :: "string option"
  rewritten_article :: "string option"
  content_hash :: string
  created_at :: nat

record database =
  rows :: "row list"
  last_rowid :: nat

type_synonym article = "(string \<times> string) list"

text \<open>
  \<open>_generate_content_hash\<close>; \<open>md5_hexdigest\<close> stands for
  \<open>hashlib.md5(content.encode()).hexdigest()\<close>.
\<close>

definition generate_content_hash :: "(string \<Rightarrow> string) \<Rightarrow> article \<Rightarrow> string" where
  "generate_content_hash md5_hexdigest article =
     md5_hexdigest (dict_get_default article ''title'' '''' @ dict_get_default article ''body'' '''')"

text \<open>
  The \<open>INSERT\<close> of \<open>add_news\<close>; \<open>now i\<close> is the value of \<open>CURRENT_TIMESTAMP\<close> when the
  row with rowid \<open>i\<close> is inserted.
\<close>

definition insert_article ::
  "(nat \<Rightarrow> nat) \<Rightarrow> article \<Rightarrow> string \<Rightarrow> database \<Rightarrow> database" where
  "insert_article now article h db =
     (let i = Suc (last_rowid db)
      in \<lparr>rows = rows db @
                  [\<lparr>row_id = i,
                    title = dict_get_default article ''title'' '''',
                    source = dict_get_default article ''source'' '''',
                    date = dict_get_default article ''date'' '''',
                    url = dict_get_default article ''url'' '''',
                    body = dict_get_default article ''body'' '''',
                    category = dict_get_default article ''category'' '''',
                    bias = None,
                    rewritten_article = None,
                    content_hash = h,
                    created_at = now i\<rparr>],
          last_rowid = i\<rparr>)"

text \<open>
  The loop of \<open>add_news\<close>. \<open>sql_error db article\<close> says that the engine raises
  \<open>sqlite3.Error\<close> while this article is processed (in the \<open>SELECT\<close> or in the
  \<open>INSERT\<close>); the code prints the error and continues with the next article, and the
  failed statement changes nothing.
\<close>

fun add_news_loop ::
  "(database \<Rightarrow> article \<Rightarrow> bool) \<Rightarrow> (string \<Rightarrow> string) \<Rightarrow> (nat \<Rightarrow> nat) \<Rightarrow> article list
     \<Rightarrow> database \<Rightarrow> nat \<Rightarrow> nat \<Rightarrow> database \<times> nat \<times> nat" where
  "add_news_loop sql_error md5_hexdigest now [] db actually_added duplicates_found =
     (db, actually_added, duplicates_found)"
| "add_news_loop sql_error md5_hexdigest now (article # data) db actually_added duplicates_found =
     (let h = generate_content_hash md5_hexdigest article
      in if sql_error db article
         then add_news_loop sql_error md5_hexdigest now data db actually_added duplicates_found
         else if list_ex (\<lambda>r. content_hash r = h) (rows db)
         then add_news_loop sql_error md5_hexdigest now data db actually_added (duplicates_found + 1)
         else add_news_loop sql_error md5_hexdigest now data (insert_article now article h db)
                (actually_added + 1) duplicates_found)"

definition add_news ::
  "(database \<Rightarrow> article \<Rightarrow> bool) \<Rightarrow> (string \<Rightarrow> string) \<Rightarrow> (nat \<Rightarrow> nat) \<Rightarrow> article list
     \<Rightarrow> database \<Rightarrow> nat \<times> database" where
  "add_news sql_error md5_hexdigest now data db =
     (case add_news_loop sql_error md5_hexdigest now data db 0 0 of
        (db', actually_added, duplicates_found) \<Rightarrow> (actually_added, db'))"

text \<open>
  \<open>prepare_data_for_llm\<close>. \<open>ORDER BY created_at DESC\<close> sorts by the timestamp, newest
  first. \<open>CURRENT_TIMESTAMP\<close> counts whole seconds, and the statement has no second
  sort key: rows with equal timestamps come back in the order of the table scan, by
  rowid, the oldest first (a stable sort). \<open>LIMIT ?\<close> with a negative value is no
  limit in SQLite. A limit
  outside the 64-bit range cannot be bound: \<open>execute\<close> raises OverflowError, which is no
  \<open>sqlite3.Error\<close> and leaves the function. \<open>sql_error\<close> says that the engine raises
  \<open>sqlite3.Error\<close>; the function then returns the empty list.
\<close>

definition order_by_created_at_desc :: "row list \<Rightarrow> row list" where
  "order_by_created_at_desc rs = sort_key (\<lambda>r. - int (created_at r)) rs"

definition sql_limit :: "int \<Rightarrow> 'a list \<Rightarrow> 'a list" where
  "sql_limit n xs = (if n < 0 then xs else take (nat n) xs)"

definition select_rows :: "int \<Rightarrow> bool \<Rightarrow> database \<Rightarrow> row list" where
  "select_rows limit processed_only db =
     sql_limit limit
       (order_by_created_at_desc
          (if processed_only then filter (\<lambda>r. bias r = None) (rows db) else rows db))"

definition prepare_data_for_llm :: "bool \<Rightarrow> int \<Rightarrow> bool \<Rightarrow> database \<Rightarrow> exn + article list" where
  "prepare_data_for_llm sql_error limit processed_only db =
     (if sql_error then Inr []
      else if limit < - (2 ^ 63) \<or> 2 ^ 63 \<le> limit then Inl OverflowError
      else Inr (map (\<lambda>r. [(''title'', title r), (''body'', body r)])
                  (select_rows limit processed_only db)))"

text \<open>
  \<open>add_bias\<close>. One \<open>UPDATE ... SET bias = ?, rewritten_article = ? WHERE title = ?\<close> per
  result. \<open>data["bias"]\<close> on a dict without the key raises KeyError, which leaves the
  function; \<open>sql_error data rs\<close> says that the engine raises \<open>sqlite3.Error\<close> on this
  update, which the function catches. In both cases \<open>commit\<close> is not reached and closing
  the connection discards the updates made so far. The function returns nothing; the
  model returns the exception that leaves it, if any, and the table.
\<close>

definition update_where_title :: "string \<Rightarrow> string \<Rightarrow> string \<Rightarrow> row list \<Rightarrow> row list" where
  "update_where_title b r t rs =
     map (\<lambda>x. if title x = t then x\<lparr>bias := Some b, rewritten_article := Some r\<rparr> else x) rs"

fun add_bias_loop ::
  "(article \<Rightarrow> row list \<Rightarrow> bool) \<Rightarrow> article list \<Rightarrow> row list \<Rightarrow> exn + row list" where
  "add_bias_loop sql_error [] rs = Inr rs"
| "add_bias_loop sql_error (data # llm_data) rs =
     (case (dict_get data ''bias'', dict_get data ''rewritten_article'', dict_get data ''title'') of
        (Some b, Some r, Some t) \<Rightarrow>
          (if sql_error data rs then Inl sqlite3_Error
           else add_bias_loop sql_error llm_data (update_where_title b r t rs))
      | _ \<Rightarrow> Inl KeyError)"

definition add_bias ::
  "(article \<Rightarrow> row list \<Rightarrow> bool) \<Rightarrow> article list \<Rightarrow> database \<Rightarrow> exn option \<times> database" where
  "add_bias sql_error llm_data db =
     (case add_bias_loop sql_error llm_data (rows db) of
        Inr rs \<Rightarrow> (None, db\<lparr>rows := rs\<rparr>)
      | Inl e \<Rightarrow> (if e = sqlite3_Error then (None, db) else (Some e, db)))"

text \<open>
  \<open>get_article_stats\<close>: \<open>COUNT(*)\<close>, the count of rows with a bias, and
  \<open>COUNT(DISTINCT content_hash)\<close>; \<open>(0, 0, 0)\<close> on \<open>sqlite3.Error\<close>.
\<close>

definition get_article_stats :: "bool \<Rightarrow> database \<Rightarrow> nat \<times> nat \<times> nat" where
  "get_article_stats sql_error db =
     (if sql_error then (0, 0, 0)
      else (length (rows db),
            length (filter (\<lambda>r. bias r \<noteq> None) (rows db)),
            length (remdups (map content_hash (rows db)))))"

text \<open>
  Two rows agree on the nine columns that \<open>add_bias\<close> does not set.
\<close>

definition same_other_columns :: "row \<Rightarrow> row \<Rightarrow> bool" where
  "same_other_columns r r' =
     (row_id r' = row_id r \<and> title r' = title r \<and> source r' = source r \<and> date r' = date r
      \<and> url r' = url r \<and> body r' = body r \<and> category r' = category r
      \<and> content_hash r' = content_hash r \<and> created_at r' = created_at r)"

section \<open>The response normalizer\<close>

lemma py_all_in_obj: "py_all_in ks (JObj d) = Inr (list_all (dict_has d) ks)"
  by (induction ks) auto

lemma json_str_empty: "json_str [] = None"
  by code_simp

text \<open>Two responses with their slices and what the decoder makes of them.\<close>

lemma json_str_prose: "json_str ''Here you go: {not json} thanks'' = Some ''{not json}''"
  by code_simp

lemma json_loads_prose: "json_loads ''{not json}'' = Inl JSONDecodeError"
  by code_simp

lemma json_str_no_braces: "json_str ''I cannot analyse this article.'' = None"
  by code_simp

lemma json_str_fenced:
  \<open>json_str ''```json\<newline>{"emotional_bias_score": 70, "overall_bias_score": 65}\<newline>```''
     = Some ''{"emotional_bias_score": 70, "overall_bias_score": 65}''\<close>
  by code_simp

lemma json_loads_fenced:
  \<open>json_loads ''{"emotional_bias_score": 70, "overall_bias_score": 65}''
     = Inr (JObj [(''emotional_bias_score'', JInt 70), (''overall_bias_score'', JInt 65)])\<close>
  by code_simp

lemma json_str_three_scores:
  \<open>json_str ''{"emotional_bias_score": 10, "framing_bias_score": 20, "overall_bias_score": 30}''
     = Some ''{"emotional_bias_score": 10, "framing_bias_score": 20, "overall_bias_score": 30}''\<close>
  by code_simp

lemma json_loads_three_scores:
  \<open>json_loads ''{"emotional_bias_score": 10, "framing_bias_score": 20, "overall_bias_score": 30}''
     = Inr (JObj [(''emotional_bias_score'', JInt 10), (''framing_bias_score'', JInt 20),
                  (''overall_bias_score'', JInt 30)])\<close>
  by code_simp

text \<open>
  Claim C1. \<open>_extract_json\<close> is a total function of the response text (every exception
  raised inside it is a branch that returns the fallback response), for every decoder.
  Its result is the fallback response or the value the decoder returned for the slice.
  It is the fallback response when there is no slice, when the decoder raises on the
  slice, and when the decoded object lacks one of the three required fields. The
  fallback response has the four scores 50, no phrases and the fixed summary.
\<close>

theorem extract_json_total:
  "(extract_json loads text = get_fallback_response
      \<or> (\<exists>s. json_str text = Some s \<and> loads s = Inr (extract_json loads text)))
   \<and> (json_str text = None \<longrightarrow> extract_json loads text = get_fallback_response)
   \<and> (\<forall>s e. json_str text = Some s \<and> loads s = Inl e
          \<longrightarrow> extract_json loads text = get_fallback_response)
   \<and> (\<forall>s d. json_str text = Some s \<and> loads s = Inr (JObj d)
               \<and> \<not> list_all (dict_has d) required
          \<longrightarrow> extract_json loads text = get_fallback_response)
   \<and> get_fallback_response =
       JObj [(''emotional_bias_score'', JInt 50), (''framing_bias_score'', JInt 50),
             (''omission_bias_score'', JInt 50), (''overall_bias_score'', JInt 50),
             (''biased_phrases'', JArr []),
             (''summary'', JStr ''Bias analysis unavailable - using fallback response'')]"
  by (auto simp: extract_json_def py_all_in_obj get_fallback_response_def
           split: option.splits sum.splits)

theorem extract_json_total_witness:
  \<open>json_str ''Here you go: {not json} thanks'' = Some ''{not json}''
   \<and> json_loads ''{not json}'' = Inl JSONDecodeError
   \<and> extract_json json_loads ''Here you go: {not json} thanks'' = get_fallback_response
   \<and> extract_json json_loads
         ''```json\<newline>{"emotional_bias_score": 70, "overall_bias_score": 65}\<newline>```''
       = get_fallback_response
   \<and> extract_json json_loads ''I cannot analyse this article.'' = get_fallback_response\<close>
proof -
  have a: "\<not> list_all (dict_has [(''emotional_bias_score'', JInt 70),
                                  (''overall_bias_score'', JInt 65)]) required"
    by (simp add: required_def dict_has_def)
  show ?thesis
    using extract_json_total [of json_loads "''Here you go: {not json} thanks''"]
          extract_json_total [of json_loads
            \<open>''```json\<newline>{"emotional_bias_score": 70, "overall_bias_score": 65}\<newline>```''\<close>]
          extract_json_total [of json_loads "''I cannot analyse this article.''"]
          json_str_prose json_loads_prose json_str_fenced json_loads_fenced json_str_no_braces a
    by blast
qed

text \<open>
  Claim C6, as stated: a response whose slice decodes to an object with the three
  required fields comes back with the missing optional fields set to 0, the empty list
  and the empty string. The code returns the decoded object as it is. For the response
  below, which has the three required fields only, the result has no omission score, no
  phrase list and no summary.
\<close>

theorem extract_json_adds_no_defaults:
  \<open>json_loads ''{"emotional_bias_score": 10, "framing_bias_score": 20, "overall_bias_score": 30}''
     = Inr (JObj [(''emotional_bias_score'', JInt 10), (''framing_bias_score'', JInt 20),
                  (''overall_bias_score'', JInt 30)])
   \<and> extract_json json_loads
         ''{"emotional_bias_score": 10, "framing_bias_score": 20, "overall_bias_score": 30}''
       = JObj [(''emotional_bias_score'', JInt 10), (''framing_bias_score'', JInt 20),
               (''overall_bias_score'', JInt 30)]
   \<and> py_in ''omission_bias_score''
         (extract_json json_loads
            ''{"emotional_bias_score": 10, "framing_bias_score": 20, "overall_bias_score": 30}'')
       = Inr False
   \<and> py_in ''biased_phrases''
         (extract_json json_loads
            ''{"emotional_bias_score": 10, "framing_bias_score": 20, "overall_bias_score": 30}'')
       = Inr False
   \<and> py_in ''summary''
         (extract_json json_loads
            ''{"emotional_bias_score": 10, "framing_bias_score": 20, "overall_bias_score": 30}'')
       = Inr False\<close>
  by code_simp

text \<open>
  Claim C6, amended: for every decoder and every response whose slice decodes to an
  object with the three required fields, \<open>_extract_json\<close> returns that object unchanged:
  it adds no field, so an optional field the response leaves out is absent from the
  result.
\<close>

theorem extract_json_returns_parsed_unchanged:
  "json_str text = Some s \<Longrightarrow> loads s = Inr (JObj d) \<Longrightarrow> list_all (dict_has d) required
     \<Longrightarrow> extract_json loads text = JObj d"
proof -
  assume s: "json_str text = Some s" and l: "loads s = Inr (JObj d)"
    and r: "list_all (dict_has d) required"
  have "text \<noteq> []"
  proof
    assume "text = []"
    with s show False by (simp add: json_str_empty)
  qed
  then show ?thesis using s l r by (simp add: extract_json_def py_all_in_obj)
qed

theorem extract_json_returns_parsed_unchanged_witness:
  \<open>extract_json json_loads
      ''{"emotional_bias_score": 10, "framing_bias_score": 20, "overall_bias_score": 30}''
     = JObj [(''emotional_bias_score'', JInt 10), (''framing_bias_score'', JInt 20),
             (''overall_bias_score'', JInt 30)]\<close>
proof -
  have "list_all (dict_has [(''emotional_bias_score'', JInt 10), (''framing_bias_score'', JInt 20),
                            (''overall_bias_score'', JInt 30)]) required"
    by (simp add: required_def dict_has_def)
  then show ?thesis
    using extract_json_returns_parsed_unchanged
            [where loads = json_loads, OF json_str_three_scores json_loads_three_scores]
    by simp
qed

section \<open>The guard of the detector\<close>

text \<open>
  Claim C10. For an article text that is empty, or shorter than 10 characters once
  stripped, \<open>detect_biases\<close> returns the fallback response (four scores 50, no phrases,
  the fixed summary) and makes no call on the provider's client.
\<close>

theorem detect_biases_short_text:
  "article_text = [] \<or> length (strip article_text) < 10
     \<Longrightarrow> detect_biases loads llm h article_text = (get_fallback_response, [])
         \<and> get_fallback_response =
             JObj [(''emotional_bias_score'', JInt 50), (''framing_bias_score'', JInt 50),
                   (''omission_bias_score'', JInt 50), (''overall_bias_score'', JInt 50),
                   (''biased_phrases'', JArr []),
                   (''summary'', JStr ''Bias analysis unavailable - using fallback response'')]"
  by (auto simp: detect_biases_def get_fallback_response_def)

theorem detect_biases_short_text_witness:
  "length (strip ''   Breaking  '') < 10
   \<and> detect_biases json_loads (\<lambda>req. Raises)
        \<lparr>client = Groq ''key'', model_name = ''llama-3.1-8b-instant'', provider = GROQ\<rparr>
        ''   Breaking  '' = (get_fallback_response, [])"
proof -
  have h: "length (strip ''   Breaking  '') < 10" by code_simp
  then show ?thesis
    using detect_biases_short_text [of "''   Breaking  ''" json_loads "\<lambda>req. Raises"
        "\<lparr>client = Groq ''key'', model_name = ''llama-3.1-8b-instant'', provider = GROQ\<rparr>"]
    by blast
qed

section \<open>The title rewrite\<close>

text \<open>
  \<open>rewrite_title_neutral\<close> on its own: below 20 (and with no score, which counts as 0)
  it returns the original title and makes no call.
\<close>

lemma rewrite_title_neutral_below_20:
  "dict_get d ''overall_bias_score'' = Some (JInt i) \<Longrightarrow> i < 20
     \<Longrightarrow> rewrite_title_neutral fmt llm h t (JObj d) = (Inr t, [])"
  by (simp add: rewrite_title_neutral_def dict_get_default_def)

lemma rewrite_title_neutral_no_score:
  "dict_get d ''overall_bias_score'' = None
     \<Longrightarrow> rewrite_title_neutral fmt llm h t (JObj d) = (Inr t, [])"
  by (simp add: rewrite_title_neutral_def dict_get_default_def)

text \<open>
  The title step of \<open>analyze_article\<close> is the only caller of \<open>rewrite_title_neutral\<close>,
  and it calls it only for a score greater than 20. Such a score is not less than 20,
  so the test at the head of \<open>rewrite_title_neutral\<close> never decides inside the step.
\<close>

lemma py_gt_int_not_lt:
  "py_gt_int v 20 = Inr True \<Longrightarrow> py_lt_int v 20 = Inr False"
  by (induction v "20 :: int" rule: py_gt_int.induct) (auto split: if_splits)

lemma analyze_article_title_le_20:
  "dict_get d ''overall_bias_score'' = Some (JInt i) \<Longrightarrow> i \<le> 20
     \<Longrightarrow> analyze_article_title fmt llm h t (JObj d) = (Inr t, [])"
  by (simp add: analyze_article_title_def dict_get_default_def)

lemma analyze_article_title_gt_20:
  "py_gt_int (dict_get_default d ''overall_bias_score'' (JInt 0)) 20 = Inr True \<Longrightarrow> t \<noteq> []
     \<Longrightarrow> analyze_article_title fmt llm h t (JObj d) = rewrite_title_neutral fmt llm h t (JObj d)"
  by (simp add: analyze_article_title_def)

lemma clean_title_headline:
  "clean_title ''Officials announce new climate policy'' = ''Officials announce new climate policy''"
  by code_simp

lemma clean_title_quoted:
  "clean_title (''Minister says '' @ [CHR 0x22] @ ''no'' @ [CHR 0x22] @ '' to the climate plan'')
     = ''Minister says no to the climate plan''"
  by code_simp

lemma clean_title_short: "clean_title '' Update '' = ''Update''"
  by code_simp

text \<open>
  Claim C4 says that for every analysis with a score above 20 the title rewrite invokes
  the provider, and returns either the provider's cleaned title or the original title.
  With a score of 75:

    \<^item> for an empty original title (the default of \<open>analyze_article\<close> and of
      \<open>article.get('title', '')\<close>) the test \<open>if original_title and ...\<close> skips the rewrite:
      no call is made, although the provider would answer with a headline of valid
      length;

    \<^item> when Groq answers with an empty content, \<open>content or original_title\<close> makes the
      original title the candidate, which is then cleaned like an answer: for an
      original title with double quotes the result is the original title without its
      quotes, which is neither the provider's title nor the original title.
\<close>

theorem analyze_article_title_without_provider_title:
  "analyze_article_title (\<lambda>v. ''0'')
      (\<lambda>req. ChatCompletion [Some ''Officials announce new climate policy''])
      \<lparr>client = Groq ''key'', model_name = ''llama-3.1-8b-instant'', provider = GROQ\<rparr>
      ''''
      (JObj [(''overall_bias_score'', JInt 75)])
    = (Inr '''', [])
   \<and> analyze_article_title (\<lambda>v. ''0'')
      (\<lambda>req. ChatCompletion [Some ''''])
      \<lparr>client = Groq ''key'', model_name = ''llama-3.1-8b-instant'', provider = GROQ\<rparr>
      (''Minister says '' @ [CHR 0x22] @ ''no'' @ [CHR 0x22] @ '' to the climate plan'')
      (JObj [(''overall_bias_score'', JInt 75)])
    = (Inr ''Minister says no to the climate plan'',
       [ChatCompletionsCreate (Groq ''key'') ''llama-3.1-8b-instant''
          [(''user'', title_prompt (\<lambda>v. ''0'')
                       (''Minister says '' @ [CHR 0x22] @ ''no'' @ [CHR 0x22] @ '' to the climate plan'')
                       [(''overall_bias_score'', JInt 75)])]
          (Some 0.1) 100 None])"
proof -
  have "checked_title
          (''Minister says '' @ [CHR 0x22] @ ''no'' @ [CHR 0x22] @ '' to the climate plan'')
          (''Minister says '' @ [CHR 0x22] @ ''no'' @ [CHR 0x22] @ '' to the climate plan'')
        = ''Minister says no to the climate plan''"
    unfolding checked_title_def clean_title_quoted by simp
  then show ?thesis
    by (simp add: rewrite_title_neutral_def analyze_article_title_def dict_get_default_def
          dict_get_def)
qed

text \<open>
  Claim C4, amended, for the title step of \<open>analyze_article\<close> (its test followed by
  \<open>rewrite_title_neutral\<close>) on an analysis whose overall score is a number:

    \<^item> for a score that is not greater than 20, and for an empty original title, the
      step returns the original title and makes no call on the provider;

    \<^item> for a score greater than 20 and a non-empty original title, it makes exactly one
      call, the request of the rewriter's provider with the headline prompt (for Groq
      and Claude with \<open>max_tokens=100\<close> and \<open>temperature=0.1\<close>);

    \<^item> when the provider answers with a title (Groq: a non-empty content of the first
      choice; Gemini: the text; Claude: the text of the first content block), the step
      returns that title, stripped and without double quotes, if the length of the
      cleaned title is strictly greater than 10 and strictly less than 120, and the
      original title otherwise;

    \<^item> when the call raises or the answer holds no choice or content block, it returns
      the original title.

  What the step returns when Groq answers with an empty or missing content is left
  open.
\<close>

theorem analyze_article_title_rewrite:
  "(t = [] \<or> py_gt_int (dict_get_default d ''overall_bias_score'' (JInt 0)) 20 = Inr False
      \<longrightarrow> analyze_article_title fmt llm h t (JObj d) = (Inr t, []))
   \<and> (t \<noteq> [] \<and> py_gt_int (dict_get_default d ''overall_bias_score'' (JInt 0)) 20 = Inr True
      \<longrightarrow>
        (provider h = GROQ \<longrightarrow>
           (let req = ChatCompletionsCreate (client h) (model_name h)
                        [(''user'', title_prompt fmt t d)] (Some 0.1) 100 None
            in snd (analyze_article_title fmt llm h t (JObj d)) = [req]
               \<and> (\<forall>c cs. llm req = ChatCompletion (Some c # cs) \<and> c \<noteq> [] \<longrightarrow>
                     fst (analyze_article_title fmt llm h t (JObj d))
                       = Inr (if 10 < length (clean_title c) \<and> length (clean_title c) < 120
                              then clean_title c else t))
               \<and> ((\<forall>c cs. llm req \<noteq> ChatCompletion (c # cs)) \<longrightarrow>
                     fst (analyze_article_title fmt llm h t (JObj d)) = Inr t)))
        \<and> (provider h = GEMINI \<longrightarrow>
           (let req = GenerateContent (client h) (title_prompt fmt t d)
            in snd (analyze_article_title fmt llm h t (JObj d)) = [req]
               \<and> (\<forall>c. llm req = GenerateContentResponse c \<longrightarrow>
                     fst (analyze_article_title fmt llm h t (JObj d))
                       = Inr (if 10 < length (clean_title c) \<and> length (clean_title c) < 120
                              then clean_title c else t))
               \<and> ((\<forall>c. llm req \<noteq> GenerateContentResponse c) \<longrightarrow>
                     fst (analyze_article_title fmt llm h t (JObj d)) = Inr t)))
        \<and> (provider h = CLAUDE \<longrightarrow>
           (let req = MessagesCreate (client h) (model_name h) 100 (Some 0.1) None
                        [(''user'', title_prompt fmt t d)]
            in snd (analyze_article_title fmt llm h t (JObj d)) = [req]
               \<and> (\<forall>c cs. llm req = Message (c # cs) \<longrightarrow>
                     fst (analyze_article_title fmt llm h t (JObj d))
                       = Inr (if 10 < length (clean_title c) \<and> length (clean_title c) < 120
                              then clean_title c else t))
               \<and> ((\<forall>c cs. llm req \<noteq> Message (c # cs)) \<longrightarrow>
                     fst (analyze_article_title fmt llm h t (JObj d)) = Inr t))))"
proof (intro conjI impI)
  assume "t = [] \<or> py_gt_int (dict_get_default d ''overall_bias_score'' (JInt 0)) 20 = Inr False"
  then show "analyze_article_title fmt llm h t (JObj d) = (Inr t, [])"
    by (auto simp: analyze_article_title_def)
next
  assume a: "t \<noteq> [] \<and> py_gt_int (dict_get_default d ''overall_bias_score'' (JInt 0)) 20 = Inr True"
    and p: "provider h = GROQ"
  from a have low: "py_lt_int (dict_get_default d ''overall_bias_score'' (JInt 0)) 20 = Inr False"
    by (simp add: py_gt_int_not_lt)
  from a have step: "analyze_article_title fmt llm h t (JObj d)
                       = rewrite_title_neutral fmt llm h t (JObj d)"
    by (simp add: analyze_article_title_gt_20)
  show "let req = ChatCompletionsCreate (client h) (model_name h)
                        [(''user'', title_prompt fmt t d)] (Some 0.1) 100 None
            in snd (analyze_article_title fmt llm h t (JObj d)) = [req]
               \<and> (\<forall>c cs. llm req = ChatCompletion (Some c # cs) \<and> c \<noteq> [] \<longrightarrow>
                     fst (analyze_article_title fmt llm h t (JObj d))
                       = Inr (if 10 < length (clean_title c) \<and> length (clean_title c) < 120
                              then clean_title c else t))
               \<and> ((\<forall>c cs. llm req \<noteq> ChatCompletion (c # cs)) \<longrightarrow>
                     fst (analyze_article_title fmt llm h t (JObj d)) = Inr t)"
    unfolding step Let_def
    using low p
    by (auto simp: rewrite_title_neutral_def checked_title_def Let_def
             split: response.splits list.splits option.splits)
next
  assume a: "t \<noteq> [] \<and> py_gt_int (dict_get_default d ''overall_bias_score'' (JInt 0)) 20 = Inr True"
    and p: "provider h = GEMINI"
  from a have low: "py_lt_int (dict_get_default d ''overall_bias_score'' (JInt 0)) 20 = Inr False"
    by (simp add: py_gt_int_not_lt)
  from a have step: "analyze_article_title fmt llm h t (JObj d)
                       = rewrite_title_neutral fmt llm h t (JObj d)"
    by (simp add: analyze_article_title_gt_20)
  show "let req = GenerateContent (client h) (title_prompt fmt t d)
            in snd (analyze_article_title fmt llm h t (JObj d)) = [req]
               \<and> (\<forall>c. llm req = GenerateContentResponse c \<longrightarrow>
                     fst (analyze_article_title fmt llm h t (JObj d))
                       = Inr (if 10 < length (clean_title c) \<and> length (clean_title c) < 120
                              then clean_title c else t))
               \<and> ((\<forall>c. llm req \<noteq> GenerateContentResponse c) \<longrightarrow>
                     fst (analyze_article_title fmt llm h t (JObj d)) = Inr t)"
    unfolding step Let_def
    using low p
    by (auto simp: rewrite_title_neutral_def checked_title_def Let_def
             split: response.splits list.splits option.splits)
next
  assume a: "t \<noteq> [] \<and> py_gt_int (dict_get_default d ''overall_bias_score'' (JInt 0)) 20 = Inr True"
    and p: "provider h = CLAUDE"
  from a have low: "py_lt_int (dict_get_default d ''overall_bias_score'' (JInt 0)) 20 = Inr False"
    by (simp add: py_gt_int_not_lt)
  from a have step: "analyze_article_title fmt llm h t (JObj d)
                       = rewrite_title_neutral fmt llm h t (JObj d)"
    by (simp add: analyze_article_title_gt_20)
  show "let req = MessagesCreate (client h) (model_name h) 100 (Some 0.1) None
                        [(''user'', title_prompt fmt t d)]
            in snd (analyze_article_title fmt llm h t (JObj d)) = [req]
               \<and> (\<forall>c cs. llm req = Message (c # cs) \<longrightarrow>
                     fst (analyze_article_title fmt llm h t (JObj d))
                       = Inr (if 10 < length (clean_title c) \<and> length (clean_title c) < 120
                              then clean_title c else t))
               \<and> ((\<forall>c cs. llm req \<noteq> Message (c # cs)) \<longrightarrow>
                     fst (analyze_article_title fmt llm h t (JObj d)) = Inr t)"
    unfolding step Let_def
    using low p
    by (auto simp: rewrite_title_neutral_def checked_title_def Let_def
             split: response.splits list.splits option.splits)
qed

theorem analyze_article_title_rewrite_witness:
  "analyze_article_title (\<lambda>v. ''0'')
      (\<lambda>req. ChatCompletion [Some ''Officials announce new climate policy''])
      \<lparr>client = Groq ''key'', model_name = ''llama-3.1-8b-instant'', provider = GROQ\<rparr>
      ''Climate Alarmists Push Radical Policies''
      (JObj [(''overall_bias_score'', JInt 20)])
    = (Inr ''Climate Alarmists Push Radical Policies'', [])
   \<and> snd (analyze_article_title (\<lambda>v. ''0'')
      (\<lambda>req. ChatCompletion [Some ''Officials announce new climate policy''])
      \<lparr>client = Groq ''key'', model_name = ''llama-3.1-8b-instant'', provider = GROQ\<rparr>
      ''Climate Alarmists Push Radical Policies''
      (JObj [(''overall_bias_score'', JInt 75)]))
    = [ChatCompletionsCreate (Groq ''key'') ''llama-3.1-8b-instant''
         [(''user'', title_prompt (\<lambda>v. ''0'') ''Climate Alarmists Push Radical Policies''
                      [(''overall_bias_score'', JInt 75)])]
         (Some 0.1) 100 None]
   \<and> fst (analyze_article_title (\<lambda>v. ''0'')
      (\<lambda>req. ChatCompletion [Some ''Officials announce new climate policy''])
      \<lparr>client = Groq ''key'', model_name = ''llama-3.1-8b-instant'', provider = GROQ\<rparr>
      ''Climate Alarmists Push Radical Policies''
      (JObj [(''overall_bias_score'', JInt 75)]))
    = Inr ''Officials announce new climate policy''
   \<and> fst (analyze_article_title (\<lambda>v. ''0'')
      (\<lambda>req. GenerateContentResponse '' Update '')
      \<lparr>client = GenerativeModel ''models/gemini-2.0-flash'',
        model_name = ''models/gemini-2.0-flash'', provider = GEMINI\<rparr>
      ''Climate Alarmists Push Radical Policies''
      (JObj [(''overall_bias_score'', JInt 75)]))
    = Inr ''Climate Alarmists Push Radical Policies''
   \<and> fst (analyze_article_title (\<lambda>v. ''0'')
      (\<lambda>req. Raises)
      \<lparr>client = Anthropic ''key'', model_name = ''claude-3-opus-20240229'', provider = CLAUDE\<rparr>
      ''Climate Alarmists Push Radical Policies''
      (JObj [(''overall_bias_score'', JInt 75)]))
    = Inr ''Climate Alarmists Push Radical Policies''"
proof (intro conjI)
  show "analyze_article_title (\<lambda>v. ''0'')
      (\<lambda>req. ChatCompletion [Some ''Officials announce new climate policy''])
      \<lparr>client = Groq ''key'', model_name = ''llama-3.1-8b-instant'', provider = GROQ\<rparr>
      ''Climate Alarmists Push Radical Policies''
      (JObj [(''overall_bias_score'', JInt 20)])
    = (Inr ''Climate Alarmists Push Radical Policies'', [])"
    using analyze_article_title_rewrite
            [where t = "''Climate Alarmists Push Radical Policies''"
               and d = "[(''overall_bias_score'', JInt 20)]"
               and fmt = "\<lambda>v. ''0''"
               and llm = "\<lambda>req. ChatCompletion [Some ''Officials announce new climate policy'']"
               and h = "\<lparr>client = Groq ''key'', model_name = ''llama-3.1-8b-instant'',
                         provider = GROQ\<rparr>"]
    by (simp add: dict_get_default_def dict_get_def)
next
  show "snd (analyze_article_title (\<lambda>v. ''0'')
      (\<lambda>req. ChatCompletion [Some ''Officials announce new climate policy''])
      \<lparr>client = Groq ''key'', model_name = ''llama-3.1-8b-instant'', provider = GROQ\<rparr>
      ''Climate Alarmists Push Radical Policies''
      (JObj [(''overall_bias_score'', JInt 75)]))
    = [ChatCompletionsCreate (Groq ''key'') ''llama-3.1-8b-instant''
         [(''user'', title_prompt (\<lambda>v. ''0'') ''Climate Alarmists Push Radical Policies''
                      [(''overall_bias_score'', JInt 75)])]
         (Some 0.1) 100 None]"
    using analyze_article_title_rewrite
            [where t = "''Climate Alarmists Push Radical Policies''"
               and d = "[(''overall_bias_score'', JInt 75)]"
               and fmt = "\<lambda>v. ''0''"
               and llm = "\<lambda>req. ChatCompletion [Some ''Officials announce new climate policy'']"
               and h = "\<lparr>client = Groq ''key'', model_name = ''llama-3.1-8b-instant'',
                         provider = GROQ\<rparr>"]
    by (simp add: dict_get_default_def dict_get_def)
next
  show "fst (analyze_article_title (\<lambda>v. ''0'')
      (\<lambda>req. ChatCompletion [Some ''Officials announce new climate policy''])
      \<lparr>client = Groq ''key'', model_name = ''llama-3.1-8b-instant'', provider = GROQ\<rparr>
      ''Climate Alarmists Push Radical Policies''
      (JObj [(''overall_bias_score'', JInt 75)]))
    = Inr ''Officials announce new climate policy''"
    using analyze_article_title_rewrite
            [where t = "''Climate Alarmists Push Radical Policies''"
               and d = "[(''overall_bias_score'', JInt 75)]"
               and fmt = "\<lambda>v. ''0''"
               and llm = "\<lambda>req. ChatCompletion [Some ''Officials announce new climate policy'']"
               and h = "\<lparr>client = Groq ''key'', model_name = ''llama-3.1-8b-instant'',
                         provider = GROQ\<rparr>"]
    by (simp add: dict_get_default_def dict_get_def clean_title_headline)
next
  show "fst (analyze_article_title (\<lambda>v. ''0'')
      (\<lambda>req. GenerateContentResponse '' Update '')
      \<lparr>client = GenerativeModel ''models/gemini-2.0-flash'',
        model_name = ''models/gemini-2.0-flash'', provider = GEMINI\<rparr>
      ''Climate Alarmists Push Radical Policies''
      (JObj [(''overall_bias_score'', JInt 75)]))
    = Inr ''Climate Alarmists Push Radical Policies''"
    using analyze_article_title_rewrite
            [where t = "''Climate Alarmists Push Radical Policies''"
               and d = "[(''overall_bias_score'', JInt 75)]"
               and fmt = "\<lambda>v. ''0''"
               and llm = "\<lambda>req. GenerateContentResponse '' Update ''"
               and h = "\<lparr>client = GenerativeModel ''models/gemini-2.0-flash'',
                         model_name = ''models/gemini-2.0-flash'', provider = GEMINI\<rparr>"]
    by (simp add: dict_get_default_def dict_get_def clean_title_short)
next
  show "fst (analyze_article_title (\<lambda>v. ''0'')
      (\<lambda>req. Raises)
      \<lparr>client = Anthropic ''key'', model_name = ''claude-3-opus-20240229'', provider = CLAUDE\<rparr>
      ''Climate Alarmists Push Radical Policies''
      (JObj [(''overall_bias_score'', JInt 75)]))
    = Inr ''Climate Alarmists Push Radical Policies''"
    using analyze_article_title_rewrite
            [where t = "''Climate Alarmists Push Radical Policies''"
               and d = "[(''overall_bias_score'', JInt 75)]"
               and fmt = "\<lambda>v. ''0''"
               and llm = "\<lambda>req. Raises"
               and h = "\<lparr>client = Anthropic ''key'', model_name = ''claude-3-opus-20240229'',
                         provider = CLAUDE\<rparr>"]
    by (simp add: dict_get_default_def dict_get_def)
qed

section \<open>The rewrite-quality classification\<close>

text \<open>
  \<open>str_split\<close> counts words: a text made of non-empty words without whitespace,
  joined by single spaces, splits into these words.
\<close>

lemma split_acc_word:
  "\<forall>c \<in> set w. \<not> isspace c \<Longrightarrow> split_acc (w @ rest) acc = split_acc rest (rev w @ acc)"
  by (induction w arbitrary: acc) auto

lemma isspace_space: "isspace CHR '' ''"
  by (simp add: isspace_def)

lemma str_split_join:
  "\<forall>w \<in> set ws. w \<noteq> [] \<and> (\<forall>c \<in> set w. \<not> isspace c) \<Longrightarrow> str_split (join '' '' ws) = ws"
proof (induction "'' ''" ws rule: join.induct)
  case 1
  then show ?case by (simp add: str_split_def)
next
  case (2 p)
  then have "split_acc (p @ []) [] = split_acc [] (rev p @ [])"
    by (intro split_acc_word) simp
  with 2 show ?case by (simp add: str_split_def)
next
  case (3 p q ps)
  then have ih: "split_acc (join '' '' (q # ps)) [] = q # ps"
    by (simp add: str_split_def)
  from 3 have "split_acc (p @ ('' '' @ join '' '' (q # ps))) []
                 = split_acc ('' '' @ join '' '' (q # ps)) (rev p @ [])"
    by (intro split_acc_word) simp
  also have "\<dots> = p # split_acc (join '' '' (q # ps)) []"
    using 3 by (simp add: isspace_space)
  finally show ?case using ih by (simp add: str_split_def)
qed

lemma words_100: "length (str_split (concat (replicate 100 ''word ''))) = 100"
  by code_simp

lemma words_40: "length (str_split (concat (replicate 40 ''term ''))) = 40"
  by code_simp

lemma words_80: "length (str_split (concat (replicate 80 ''term ''))) = 80"
  by code_simp

text \<open>
  Claim C5. \<open>_assess_rewrite_quality\<close> returns \<open>no_change\<close> for equal texts; for
  different texts it returns \<open>significant_change\<close> exactly when the absolute difference
  of the word counts exceeds half the original word count, and \<open>moderate_change\<close>
  exactly when it does not. An original of 100 words against a rewrite of 40 words is a
  significant change, and against a rewrite of 80 words a moderate change.
\<close>

theorem assess_rewrite_quality_classes:
  "(original = rewritten \<longrightarrow> assess_rewrite_quality original rewritten = ''no_change'')
   \<and> (original \<noteq> rewritten \<longrightarrow>
        (assess_rewrite_quality original rewritten = ''significant_change''
           \<longleftrightarrow> real_of_int \<bar>int (length (str_split original)) - int (length (str_split rewritten))\<bar>
                 > 0.5 * real (length (str_split original))))
   \<and> (original \<noteq> rewritten \<longrightarrow>
        (assess_rewrite_quality original rewritten = ''moderate_change''
           \<longleftrightarrow> \<not> real_of_int \<bar>int (length (str_split original)) - int (length (str_split rewritten))\<bar>
                 > 0.5 * real (length (str_split original))))
   \<and> (length (str_split original) = 100 \<and> length (str_split rewritten) = 40
        \<longrightarrow> assess_rewrite_quality original rewritten = ''significant_change'')
   \<and> (length (str_split original) = 100 \<and> length (str_split rewritten) = 80
        \<longrightarrow> assess_rewrite_quality original rewritten = ''moderate_change'')"
  by (auto simp: assess_rewrite_quality_def Let_def)

theorem assess_rewrite_quality_classes_witness:
  "assess_rewrite_quality (concat (replicate 100 ''word '')) (concat (replicate 40 ''term ''))
     = ''significant_change''
   \<and> assess_rewrite_quality (concat (replicate 100 ''word '')) (concat (replicate 80 ''term ''))
     = ''moderate_change''
   \<and> assess_rewrite_quality ''Same text.'' ''Same text.'' = ''no_change''"
  using assess_rewrite_quality_classes
          [of "concat (replicate 100 ''word '')" "concat (replicate 40 ''term '')"]
        assess_rewrite_quality_classes
          [of "concat (replicate 100 ''word '')" "concat (replicate 80 ''term '')"]
        assess_rewrite_quality_classes [of "''Same text.''" "''Same text.''"]
        words_100 words_40 words_80
  by blast

section \<open>The batch\<close>

text \<open>
  \<open>gather\<close> collects every outcome that does not end the event loop, in the order of the
  tasks, and raises only \<open>KeyboardInterrupt\<close> or \<open>SystemExit\<close>, and only if a task did.
\<close>

lemma gather_return_exceptions_collects:
  "list_all (\<lambda>outcome. outcome \<noteq> Inl KeyboardInterrupt \<and> outcome \<noteq> Inl SystemExit) outcomes
     \<Longrightarrow> gather_return_exceptions outcomes
           = Inr (map (\<lambda>outcome. case outcome of Inl e \<Rightarrow> ExceptionObject e
                                              | Inr v \<Rightarrow> Value v) outcomes)"
  by (induction outcomes) (auto split: sum.splits raised.splits)

lemma gather_return_exceptions_raises:
  "gather_return_exceptions outcomes = Inl e
     \<Longrightarrow> (e = KeyboardInterrupt \<or> e = SystemExit) \<and> Inl e \<in> set outcomes"
  by (induction outcomes) (auto split: sum.splits raised.splits)

text \<open>
  Where no task raises \<open>KeyboardInterrupt\<close> or \<open>SystemExit\<close>, the batch returns a list
  with one result per article, in the order of the articles. The result at a position
  is the dict the task at that position returned, the record \<open>{"error": str(e)}\<close> for an
  instance \<open>e\<close> of \<open>Exception\<close>, and the exception object itself for an exception
  outside \<open>Exception\<close>. It depends on the task at that position only.
\<close>

lemma analyze_multiple_articles_positions:
  assumes "\<forall>i < length articles.
             f i (dict_get_default (articles ! i) ''body'' '''')
                 (dict_get_default (articles ! i) ''title'' '''')
                 (dict_get_default (articles ! i) ''source'' ''unknown'')
               \<notin> {Inl KeyboardInterrupt, Inl SystemExit}"
  shows "\<exists>out. analyze_multiple_articles f articles = Inr out
           \<and> length out = length articles
           \<and> (\<forall>i < length articles.
                out ! i =
                  (case f i (dict_get_default (articles ! i) ''body'' '''')
                            (dict_get_default (articles ! i) ''title'' '''')
                            (dict_get_default (articles ! i) ''source'' ''unknown'') of
                     Inr r \<Rightarrow> Value r
                   | Inl (Exception msg) \<Rightarrow> Value (JObj [(''error'', JStr msg)])
                   | Inl e \<Rightarrow> ExceptionObject e))"
proof -
  define task where
    "task = (\<lambda>(i, article).
               f i (dict_get_default article ''body'' '''')
                   (dict_get_default article ''title'' '''')
                   (dict_get_default article ''source'' ''unknown''))"
  define tasks where "tasks = map task (enumerate 0 articles)"
  define collect where
    "collect = (\<lambda>outcome :: raised + json.
                  case outcome of Inl e \<Rightarrow> ExceptionObject e | Inr v \<Rightarrow> Value v)"
  have len: "length tasks = length articles"
    by (simp add: tasks_def)
  have nth: "tasks ! i =
               f i (dict_get_default (articles ! i) ''body'' '''')
                   (dict_get_default (articles ! i) ''title'' '''')
                   (dict_get_default (articles ! i) ''source'' ''unknown'')"
    if "i < length articles" for i
    using that by (simp add: tasks_def task_def nth_enumerate_eq)
  have "list_all (\<lambda>outcome. outcome \<noteq> Inl KeyboardInterrupt \<and> outcome \<noteq> Inl SystemExit) tasks"
    unfolding list_all_length
  proof (intro allI impI)
    fix n assume "n < length tasks"
    then have n: "n < length articles" using len by simp
    from assms n have
      "f n (dict_get_default (articles ! n) ''body'' '''')
           (dict_get_default (articles ! n) ''title'' '''')
           (dict_get_default (articles ! n) ''source'' ''unknown'')
         \<notin> {Inl KeyboardInterrupt, Inl SystemExit}"
      by blast
    then show "tasks ! n \<noteq> Inl KeyboardInterrupt \<and> tasks ! n \<noteq> Inl SystemExit"
      using nth [OF n] by simp
  qed
  then have g: "gather_return_exceptions tasks = Inr (map collect tasks)"
    unfolding collect_def by (rule gather_return_exceptions_collects)
  have r: "analyze_multiple_articles f articles = Inr (map process_result (map collect tasks))"
    unfolding analyze_multiple_articles_def Let_def
    using g by (simp add: tasks_def task_def)
  have l: "length (map process_result (map collect tasks)) = length articles"
    using len by simp
  have "map process_result (map collect tasks) ! i =
          (case f i (dict_get_default (articles ! i) ''body'' '''')
                    (dict_get_default (articles ! i) ''title'' '''')
                    (dict_get_default (articles ! i) ''source'' ''unknown'') of
             Inr r \<Rightarrow> Value r
           | Inl (Exception msg) \<Rightarrow> Value (JObj [(''error'', JStr msg)])
           | Inl e \<Rightarrow> ExceptionObject e)"
    if i: "i < length articles" for i
  proof -
    have "map process_result (map collect tasks) ! i = process_result (collect (tasks ! i))"
      using i len by simp
    also have "\<dots> = process_result (collect
          (f i (dict_get_default (articles ! i) ''body'' '''')
               (dict_get_default (articles ! i) ''title'' '''')
               (dict_get_default (articles ! i) ''source'' ''unknown'')))"
      using nth [OF i] by simp
    also have "\<dots> =
          (case f i (dict_get_default (articles ! i) ''body'' '''')
                    (dict_get_default (articles ! i) ''title'' '''')
                    (dict_get_default (articles ! i) ''source'' ''unknown'') of
             Inr r \<Rightarrow> Value r
           | Inl (Exception msg) \<Rightarrow> Value (JObj [(''error'', JStr msg)])
           | Inl e \<Rightarrow> ExceptionObject e)"
      by (simp add: process_result_def collect_def split: sum.splits raised.splits)
    finally show ?thesis .
  qed
  with r l show ?thesis by blast
qed

text \<open>
  Three articles, the task of the second of which raises an instance of \<open>Exception\<close>:
  the record with the key \<open>error\<close> stands at its position, between the results of the
  other two tasks.
\<close>

lemma analyze_multiple_articles_failed_task:
  "analyze_multiple_articles
     (\<lambda>i body title source.
        if i = 1 then Inl (Exception ''provider call failed'')
        else Inr (JObj [(''original_title'', JStr title)]))
     [[(''title'', ''A''), (''body'', ''first body'')],
      [(''title'', ''B''), (''body'', ''second body'')],
      [(''title'', ''C''), (''body'', ''third body'')]]
   = Inr [Value (JObj [(''original_title'', JStr ''A'')]),
          Value (JObj [(''error'', JStr ''provider call failed'')]),
          Value (JObj [(''original_title'', JStr ''C'')])]"
  by (simp add: analyze_multiple_articles_def process_result_def
        enumerate_eq_zip upt_rec dict_get_default_def dict_get_def)

text \<open>
  The same batch when the second task raises \<open>KeyboardInterrupt\<close>: the batch raises it
  and returns no list.
\<close>

lemma analyze_multiple_articles_keyboard_interrupt:
  "analyze_multiple_articles
     (\<lambda>i body title source.
        if i = 1 then Inl KeyboardInterrupt
        else Inr (JObj [(''original_title'', JStr title)]))
     [[(''title'', ''A''), (''body'', ''first body'')],
      [(''title'', ''B''), (''body'', ''second body'')],
      [(''title'', ''C''), (''body'', ''third body'')]]
   = Inl KeyboardInterrupt"
  by (simp add: analyze_multiple_articles_def
        enumerate_eq_zip upt_rec dict_get_default_def dict_get_def)


section \<open>Provider selection\<close>

lemma get_model_counts:
  "get_model getenv api w = (r, w') \<Longrightarrow> get_model_calls w' = Suc (get_model_calls w)"
  by (auto simp: get_model_def Let_def split: prod.splits)

text \<open>
  Claim C8, as stated: the provider handle is selected once, and the detector, the
  rewriter and the explainer share that one selection, none selecting for itself. The
  constructor of each agent calls \<open>ModelFactory.get_model()\<close> itself. In an environment
  with a Groq and a Gemini key where Groq answers the first trial call only, building the
  orchestrator runs the selection three times; the detector holds a Groq handle, the
  rewriter and the explainer hold Gemini handles.
\<close>

theorem orchestrator_init_three_selections:
  "orchestrator_init
     (\<lambda>name. if name = ''GROQ_API_KEY'' then Some ''gsk''
              else if name = ''GEMINI_API_KEY'' then Some ''gmk'' else None)
     (\<lambda>t req. case req of
                 ChatCompletionsCreate c m msgs temp n f \<Rightarrow>
                   (if t = 0 then ChatCompletion [Some ''ok''] else Raises)
               | GenerateContent c p \<Rightarrow> GenerateContentResponse ''ok''
               | MessagesCreate c m n temp sys msgs \<Rightarrow> Raises)
     3 \<lparr>api_calls = 0, get_model_calls = 0\<rparr>
   = (Inr \<lparr>detector = \<lparr>client = Groq ''gsk'', model_name = ''llama-3.1-70b-versatile'',
                         provider = GROQ\<rparr>,
           rewriter = \<lparr>client = GenerativeModel ''models/gemini-2.0-flash'',
                         model_name = ''models/gemini-2.0-flash'', provider = GEMINI\<rparr>,
           explainer = \<lparr>client = GenerativeModel ''models/gemini-2.0-flash'',
                          model_name = ''models/gemini-2.0-flash'', provider = GEMINI\<rparr>,
           max_concurrent = 3\<rparr>,
      \<lparr>api_calls = 9, get_model_calls = 3\<rparr>)"
  by (simp add: orchestrator_init_def get_model_def get_groq_client_def get_gemini_model_def
        GROQ_MODELS_def GEMINI_MODELS_def Let_def)

text \<open>
  Claim C8, amended: building the orchestrator runs the provider selection exactly three
  times, once in the constructor of each agent, in the order detector, rewriter,
  explainer, all before any article is processed; each agent holds the handle its own
  selection returned, and the three handles need not be the same. Nothing after the
  constructors assigns a handle: the functions of the agents take the handle as an
  argument and return no handle.
\<close>

theorem orchestrator_init_selections:
  "orchestrator_init getenv api n w = (Inr orch, w') \<longrightarrow>
     (\<exists>w1 w2. get_model getenv api w = (Inr (detector orch), w1)
            \<and> get_model getenv api w1 = (Inr (rewriter orch), w2)
            \<and> get_model getenv api w2 = (Inr (explainer orch), w')
            \<and> get_model_calls w1 = get_model_calls w + 1
            \<and> get_model_calls w2 = get_model_calls w + 2
            \<and> get_model_calls w' = get_model_calls w + 3)"
proof
  assume a: "orchestrator_init getenv api n w = (Inr orch, w')"
  obtain r1 w1 where g1: "get_model getenv api w = (r1, w1)" by (cases "get_model getenv api w")
  obtain r2 w2 where g2: "get_model getenv api w1 = (r2, w2)" by (cases "get_model getenv api w1")
  obtain r3 w3 where g3: "get_model getenv api w2 = (r3, w3)" by (cases "get_model getenv api w2")
  from a g1 obtain d where d: "r1 = Inr d"
    by (cases r1) (auto simp: orchestrator_init_def)
  from a g1 g2 d obtain r where r: "r2 = Inr r"
    by (cases r2) (auto simp: orchestrator_init_def)
  from a g1 g2 g3 d r obtain x where x: "r3 = Inr x"
    by (cases r3) (auto simp: orchestrator_init_def)
  from a g1 g2 g3 d r x
  have o: "orch = \<lparr>detector = d, rewriter = r, explainer = x, max_concurrent = n\<rparr>"
    and w: "w' = w3"
    by (auto simp: orchestrator_init_def)
  have c1: "get_model_calls w1 = get_model_calls w + 1"
    using get_model_counts [OF g1] by simp
  have c2: "get_model_calls w2 = get_model_calls w + 2"
    using get_model_counts [OF g2] c1 by simp
  have c3: "get_model_calls w3 = get_model_calls w + 3"
    using get_model_counts [OF g3] c2 by simp
  show "\<exists>w1 w2. get_model getenv api w = (Inr (detector orch), w1)
            \<and> get_model getenv api w1 = (Inr (rewriter orch), w2)
            \<and> get_model getenv api w2 = (Inr (explainer orch), w')
            \<and> get_model_calls w1 = get_model_calls w + 1
            \<and> get_model_calls w2 = get_model_calls w + 2
            \<and> get_model_calls w' = get_model_calls w + 3"
    using g1 g2 g3 d r x o w c1 c2 c3 by auto
qed

lemma orchestrator_init_groq_only:
  "orchestrator_init
     (\<lambda>name. if name = ''GROQ_API_KEY'' then Some ''gsk'' else None)
     (\<lambda>t req. ChatCompletion [Some ''ok''])
     2 \<lparr>api_calls = 0, get_model_calls = 0\<rparr>
   = (Inr \<lparr>detector = \<lparr>client = Groq ''gsk'', model_name = ''llama-3.1-70b-versatile'',
                         provider = GROQ\<rparr>,
           rewriter = \<lparr>client = Groq ''gsk'', model_name = ''llama-3.1-70b-versatile'',
                         provider = GROQ\<rparr>,
           explainer = \<lparr>client = Groq ''gsk'', model_name = ''llama-3.1-70b-versatile'',
                          provider = GROQ\<rparr>,
           max_concurrent = 2\<rparr>,
      \<lparr>api_calls = 3, get_model_calls = 3\<rparr>)"
  by (simp add: orchestrator_init_def get_model_def get_groq_client_def
        GROQ_MODELS_def Let_def)

theorem orchestrator_init_selections_witness:
  "orchestrator_init
     (\<lambda>name. if name = ''GROQ_API_KEY'' then Some ''gsk'' else None)
     (\<lambda>t req. ChatCompletion [Some ''ok''])
     2 \<lparr>api_calls = 0, get_model_calls = 0\<rparr>
   = (Inr \<lparr>detector = \<lparr>client = Groq ''gsk'', model_name = ''llama-3.1-70b-versatile'',
                         provider = GROQ\<rparr>,
           rewriter = \<lparr>client = Groq ''gsk'', model_name = ''llama-3.1-70b-versatile'',
                         provider = GROQ\<rparr>,
           explainer = \<lparr>client = Groq ''gsk'', model_name = ''llama-3.1-70b-versatile'',
                          provider = GROQ\<rparr>,
           max_concurrent = 2\<rparr>,
      \<lparr>api_calls = 3, get_model_calls = 3\<rparr>)
   \<and> fst (get_model (\<lambda>name. if name = ''GROQ_API_KEY'' then Some ''gsk'' else None)
            (\<lambda>t req. ChatCompletion [Some ''ok''])
            \<lparr>api_calls = 0, get_model_calls = 0\<rparr>)
     = Inr \<lparr>client = Groq ''gsk'', model_name = ''llama-3.1-70b-versatile'', provider = GROQ\<rparr>
   \<and> get_model_calls
        (snd (get_model (\<lambda>name. if name = ''GROQ_API_KEY'' then Some ''gsk'' else None)
                (\<lambda>t req. ChatCompletion [Some ''ok''])
                \<lparr>api_calls = 0, get_model_calls = 0\<rparr>))
     = 1"
proof -
  let ?E = "\<lambda>name. if name = ''GROQ_API_KEY'' then Some ''gsk'' else None"
  let ?A = "\<lambda>(t::nat) (req::request). ChatCompletion [Some ''ok'']"
  let ?W = "\<lparr>api_calls = 0, get_model_calls = 0\<rparr>"
  let ?h = "\<lparr>client = Groq ''gsk'', model_name = ''llama-3.1-70b-versatile'', provider = GROQ\<rparr>"
  let ?O = "\<lparr>detector = ?h, rewriter = ?h, explainer = ?h, max_concurrent = 2\<rparr>"
  from orchestrator_init_selections
         [where getenv = ?E and api = ?A and n = 2 and w = ?W, THEN mp,
          OF orchestrator_init_groq_only]
  obtain w1 w2 where
    g: "get_model ?E ?A ?W = (Inr (detector ?O), w1)"
    and c: "get_model_calls w1 = get_model_calls ?W + 1"
    by blast
  have "fst (get_model ?E ?A ?W) = Inr ?h" using g by simp
  moreover have "get_model_calls (snd (get_model ?E ?A ?W)) = 1" using g c by simp
  ultimately show ?thesis using orchestrator_init_groq_only by simp
qed

section \<open>The article store: insertion\<close>

lemma rows_insert_article:
  "rows (insert_article now a h db) =
     rows db @ [\<lparr>row_id = Suc (last_rowid db),
                 title = dict_get_default a ''title'' '''',
                 source = dict_get_default a ''source'' '''',
                 date = dict_get_default a ''date'' '''',
                 url = dict_get_default a ''url'' '''',
                 body = dict_get_default a ''body'' '''',
                 category = dict_get_default a ''category'' '''',
                 bias = None,
                 rewritten_article = None,
                 content_hash = h,
                 created_at = now (Suc (last_rowid db))\<rparr>]"
  by (simp add: insert_article_def Let_def)

lemma list_ex_hash: "list_ex (\<lambda>r. content_hash r = h) rs \<longleftrightarrow> h \<in> content_hash ` set rs"
  by (auto simp: list_ex_iff)

lemma list_ex_insert_article:
  "list_ex (\<lambda>r. content_hash r = h) (rows (insert_article now a h db))"
  by (simp add: rows_insert_article)

text \<open>
  The loop only appends rows: one per counted article, each with a digest that no
  earlier row has.
\<close>

lemma add_news_loop_appends:
  "add_news_loop e md5_hexdigest now data db a d = (db', a', d')
     \<Longrightarrow> \<exists>ns. rows db' = rows db @ ns \<and> a' = a + length ns
              \<and> distinct (map content_hash ns)
              \<and> content_hash ` set ns \<inter> content_hash ` set (rows db) = {}"
proof (induction data arbitrary: db a d)
  case Nil
  then show ?case by simp
next
  case (Cons x data)
  let ?h = "generate_content_hash md5_hexdigest x"
  show ?case
  proof (cases "e db x")
    case True
    with Cons.prems have "add_news_loop e md5_hexdigest now data db a d = (db', a', d')"
      by (simp add: Let_def)
    from Cons.IH [OF this] show ?thesis .
  next
    case False
    show ?thesis
    proof (cases "?h \<in> content_hash ` set (rows db)")
      case True
      with False Cons.prems
      have "add_news_loop e md5_hexdigest now data db a (d + 1) = (db', a', d')"
        by (simp add: list_ex_hash Let_def)
      from Cons.IH [OF this] show ?thesis .
    next
      case nin: False
      with False Cons.prems
      have "add_news_loop e md5_hexdigest now data (insert_article now x ?h db) (a + 1) d
              = (db', a', d')"
        by (simp add: list_ex_hash Let_def)
      from Cons.IH [OF this] obtain ns where
        ns: "rows db' = rows (insert_article now x ?h db) @ ns" "a' = a + 1 + length ns"
            "distinct (map content_hash ns)"
            "content_hash ` set ns \<inter> content_hash ` set (rows (insert_article now x ?h db)) = {}"
        by auto
      obtain r where r: "rows (insert_article now x ?h db) = rows db @ [r]" "content_hash r = ?h"
        by (simp add: rows_insert_article)
      have "rows db' = rows db @ (r # ns)" using ns(1) r(1) by simp
      moreover have "a' = a + length (r # ns)" using ns(2) by simp
      moreover have "distinct (map content_hash (r # ns))"
        using ns(3,4) r by auto
      moreover have "content_hash ` set (r # ns) \<inter> content_hash ` set (rows db) = {}"
        using ns(4) r nin by auto
      ultimately show ?thesis by blast
    qed
  qed
qed

lemma add_news_existing:
  "list_ex (\<lambda>r. content_hash r = generate_content_hash md5_hexdigest a) (rows db)
     \<Longrightarrow> add_news e md5_hexdigest now [a] db = (0, db)"
  by (simp add: add_news_def Let_def)

lemma add_news_single:
  "add_news e md5_hexdigest now [a] db =
     (if e db a \<or> list_ex (\<lambda>r. content_hash r = generate_content_hash md5_hexdigest a) (rows db)
      then (0, db)
      else (1, insert_article now a (generate_content_hash md5_hexdigest a) db))"
  by (simp add: add_news_def Let_def)

lemma same_title_body_same_hash:
  "dict_get_default a' ''title'' '''' = dict_get_default a ''title'' ''''
     \<and> dict_get_default a' ''body'' '''' = dict_get_default a ''body'' ''''
   \<Longrightarrow> generate_content_hash md5_hexdigest a' = generate_content_hash md5_hexdigest a"
  by (simp add: generate_content_hash_def)

lemma add_news_twice_le_1:
  assumes "generate_content_hash md5_hexdigest a' = generate_content_hash md5_hexdigest a"
  shows "fst (add_news e md5_hexdigest now [a] db)
           + fst (add_news e' md5_hexdigest now' [a']
                    (snd (add_news e md5_hexdigest now [a] db))) \<le> 1"
proof (cases "e db a \<or> list_ex (\<lambda>r. content_hash r = generate_content_hash md5_hexdigest a) (rows db)")
  case True
  then have "add_news e md5_hexdigest now [a] db = (0, db)"
    using add_news_single [of e md5_hexdigest now a db] by simp
  moreover have "fst (add_news e' md5_hexdigest now' [a'] db) \<le> 1"
    using add_news_single [of e' md5_hexdigest now' a' db] by simp
  ultimately show ?thesis by simp
next
  case False
  then have 1: "add_news e md5_hexdigest now [a] db
                  = (1, insert_article now a (generate_content_hash md5_hexdigest a) db)"
    using add_news_single [of e md5_hexdigest now a db] by simp
  have "add_news e' md5_hexdigest now' [a']
          (insert_article now a (generate_content_hash md5_hexdigest a) db)
        = (0, insert_article now a (generate_content_hash md5_hexdigest a) db)"
    using add_news_existing [of md5_hexdigest a'
            "insert_article now a (generate_content_hash md5_hexdigest a) db" e' now']
          list_ex_insert_article [of "generate_content_hash md5_hexdigest a" now a db] assms
    by simp
  with 1 show ?thesis by simp
qed

lemma add_news_twice_eq_1:
  assumes "generate_content_hash md5_hexdigest a' = generate_content_hash md5_hexdigest a"
    and "\<not> list_ex (\<lambda>r. content_hash r = generate_content_hash md5_hexdigest a) (rows db)"
    and "\<not> e db a"
  shows "fst (add_news e md5_hexdigest now [a] db)
           + fst (add_news e' md5_hexdigest now' [a']
                    (snd (add_news e md5_hexdigest now [a] db))) = 1"
proof -
  have 1: "add_news e md5_hexdigest now [a] db
             = (1, insert_article now a (generate_content_hash md5_hexdigest a) db)"
    using add_news_single [of e md5_hexdigest now a db] assms(2,3) by simp
  have "add_news e' md5_hexdigest now' [a']
          (insert_article now a (generate_content_hash md5_hexdigest a) db)
        = (0, insert_article now a (generate_content_hash md5_hexdigest a) db)"
    using add_news_existing [of md5_hexdigest a'
            "insert_article now a (generate_content_hash md5_hexdigest a) db" e' now']
          list_ex_insert_article [of "generate_content_hash md5_hexdigest a" now a db] assms(1)
    by simp
  with 1 show ?thesis by simp
qed

text \<open>
  Claim C3. For every hash function, clock and storage-error behaviour:
  an article whose content digest (the hash of title followed by body) is already in the
  table is not counted and the table stays as it is; in general \<open>add_news\<close> only appends
  rows, its result is the number of rows appended, and the appended rows carry digests
  that are pairwise different and different from every digest that was in the table.
  Inserting an article and then, in a second call, an article with the same title and
  body counts 1 in total when the digest was new and the first insertion met no storage
  error, and never more than 1. The count of distinct digests reported by
  \<open>get_article_stats\<close> never exceeds the row count.
\<close>

theorem add_news_dedup:
  "(list_ex (\<lambda>r. content_hash r = generate_content_hash md5_hexdigest article) (rows db)
      \<longrightarrow> add_news sql_error md5_hexdigest now [article] db = (0, db))
   \<and> (\<exists>ns. rows (snd (add_news sql_error md5_hexdigest now data db)) = rows db @ ns
            \<and> fst (add_news sql_error md5_hexdigest now data db) = length ns
            \<and> distinct (map content_hash ns)
            \<and> content_hash ` set ns \<inter> content_hash ` set (rows db) = {})
   \<and> (\<not> list_ex (\<lambda>r. content_hash r = generate_content_hash md5_hexdigest article) (rows db)
       \<and> \<not> sql_error db article
       \<and> dict_get_default article' ''title'' '''' = dict_get_default article ''title'' ''''
       \<and> dict_get_default article' ''body'' '''' = dict_get_default article ''body'' ''''
      \<longrightarrow> fst (add_news sql_error md5_hexdigest now [article] db)
           + fst (add_news sql_error' md5_hexdigest now' [article']
                    (snd (add_news sql_error md5_hexdigest now [article] db))) = 1)
   \<and> (dict_get_default article' ''title'' '''' = dict_get_default article ''title'' ''''
       \<and> dict_get_default article' ''body'' '''' = dict_get_default article ''body'' ''''
      \<longrightarrow> fst (add_news sql_error md5_hexdigest now [article] db)
           + fst (add_news sql_error' md5_hexdigest now' [article']
                    (snd (add_news sql_error md5_hexdigest now [article] db))) \<le> 1)
   \<and> (case get_article_stats stats_error db of
         (n_total, n_processed, n_unique) \<Rightarrow> n_unique \<le> n_total)"
proof (intro conjI impI)
  assume "list_ex (\<lambda>r. content_hash r = generate_content_hash md5_hexdigest article) (rows db)"
  then show "add_news sql_error md5_hexdigest now [article] db = (0, db)"
    by (rule add_news_existing)
next
  obtain db' a' d' where l: "add_news_loop sql_error md5_hexdigest now data db 0 0 = (db', a', d')"
    by (cases "add_news_loop sql_error md5_hexdigest now data db 0 0") auto
  have r: "add_news sql_error md5_hexdigest now data db = (a', db')"
    using l by (simp add: add_news_def)
  from add_news_loop_appends [OF l]
  show "\<exists>ns. rows (snd (add_news sql_error md5_hexdigest now data db)) = rows db @ ns
            \<and> fst (add_news sql_error md5_hexdigest now data db) = length ns
            \<and> distinct (map content_hash ns)
            \<and> content_hash ` set ns \<inter> content_hash ` set (rows db) = {}"
    unfolding r by simp
next
  assume a: "\<not> list_ex (\<lambda>r. content_hash r = generate_content_hash md5_hexdigest article) (rows db)
       \<and> \<not> sql_error db article
       \<and> dict_get_default article' ''title'' '''' = dict_get_default article ''title'' ''''
       \<and> dict_get_default article' ''body'' '''' = dict_get_default article ''body'' ''''"
  then have h: "generate_content_hash md5_hexdigest article' = generate_content_hash md5_hexdigest article"
    by (intro same_title_body_same_hash) blast
  from a have n: "\<not> list_ex (\<lambda>r. content_hash r = generate_content_hash md5_hexdigest article) (rows db)"
    and e: "\<not> sql_error db article"
    by blast+
  show "fst (add_news sql_error md5_hexdigest now [article] db)
           + fst (add_news sql_error' md5_hexdigest now' [article']
                    (snd (add_news sql_error md5_hexdigest now [article] db))) = 1"
    by (rule add_news_twice_eq_1 [where e = sql_error and a = article and db = db, OF h n e])
next
  assume "dict_get_default article' ''title'' '''' = dict_get_default article ''title'' ''''
       \<and> dict_get_default article' ''body'' '''' = dict_get_default article ''body'' ''''"
  then have "generate_content_hash md5_hexdigest article' = generate_content_hash md5_hexdigest article"
    by (rule same_title_body_same_hash)
  then show "fst (add_news sql_error md5_hexdigest now [article] db)
           + fst (add_news sql_error' md5_hexdigest now' [article']
                    (snd (add_news sql_error md5_hexdigest now [article] db))) \<le> 1"
    by (rule add_news_twice_le_1 [where e = sql_error and a = article and db = db])
next
  show "case get_article_stats stats_error db of
          (n_total, n_processed, n_unique) \<Rightarrow> n_unique \<le> n_total"
    using length_remdups_leq [of "map content_hash (rows db)"]
    by (simp add: get_article_stats_def)
qed

theorem add_news_dedup_witness:
  "add_news (\<lambda>db a. False) (\<lambda>s. ''h:'' @ s) (\<lambda>i. 1000)
      [[(''title'', ''Rates rise''), (''body'', ''The bank raised rates.''), (''source'', ''wire'')]]
      \<lparr>rows = [], last_rowid = 0\<rparr>
   = (1, \<lparr>rows = [\<lparr>row_id = 1, title = ''Rates rise'', source = ''wire'', date = '''',
                   url = '''', body = ''The bank raised rates.'', category = '''',
                   bias = None, rewritten_article = None,
                   content_hash = ''h:Rates riseThe bank raised rates.'',
                   created_at = 1000\<rparr>],
          last_rowid = 1\<rparr>)
   \<and> fst (add_news (\<lambda>db a. False) (\<lambda>s. ''h:'' @ s) (\<lambda>i. 1000)
      [[(''title'', ''Rates rise''), (''body'', ''The bank raised rates.''), (''source'', ''wire'')]]
      \<lparr>rows = [], last_rowid = 0\<rparr>)
     + fst (add_news (\<lambda>db a. False) (\<lambda>s. ''h:'' @ s) (\<lambda>i. 2000)
      [[(''title'', ''Rates rise''), (''body'', ''The bank raised rates.''), (''source'', ''other'')]]
      (snd (add_news (\<lambda>db a. False) (\<lambda>s. ''h:'' @ s) (\<lambda>i. 1000)
      [[(''title'', ''Rates rise''), (''body'', ''The bank raised rates.''), (''source'', ''wire'')]]
      \<lparr>rows = [], last_rowid = 0\<rparr>))) = 1"
proof -
  let ?a = "[(''title'', ''Rates rise''), (''body'', ''The bank raised rates.''), (''source'', ''wire'')]"
  let ?a' = "[(''title'', ''Rates rise''), (''body'', ''The bank raised rates.''), (''source'', ''other'')]"
  let ?db = "\<lparr>rows = [], last_rowid = 0\<rparr>"
  let ?h = "\<lambda>s. ''h:'' @ s"
  have 1: "\<not> list_ex (\<lambda>r. content_hash r = generate_content_hash ?h ?a) (rows ?db)"
    by simp
  have 2: "dict_get_default ?a' ''title'' '''' = dict_get_default ?a ''title'' ''''"
    by (simp add: dict_get_default_def dict_get_def)
  have 3: "dict_get_default ?a' ''body'' '''' = dict_get_default ?a ''body'' ''''"
    by (simp add: dict_get_default_def dict_get_def)
  have "fst (add_news (\<lambda>db a. False) ?h (\<lambda>i. 1000) [?a] ?db)
     + fst (add_news (\<lambda>db a. False) ?h (\<lambda>i. 2000) [?a']
         (snd (add_news (\<lambda>db a. False) ?h (\<lambda>i. 1000) [?a] ?db))) = 1"
    by (rule add_news_dedup [where md5_hexdigest = ?h and article = ?a and db = ?db
               and sql_error = "\<lambda>db a. False" and now = "\<lambda>i. 1000" and article' = ?a'
               and sql_error' = "\<lambda>db a. False" and now' = "\<lambda>i. 2000",
               THEN conjunct2, THEN conjunct2, THEN conjunct1, THEN mp])
       (simp add: 1 2 3)
  moreover have "add_news (\<lambda>db a. False) ?h (\<lambda>i. 1000) [?a] ?db
   = (1, \<lparr>rows = [\<lparr>row_id = 1, title = ''Rates rise'', source = ''wire'', date = '''',
                   url = '''', body = ''The bank raised rates.'', category = '''',
                   bias = None, rewritten_article = None,
                   content_hash = ''h:Rates riseThe bank raised rates.'',
                   created_at = 1000\<rparr>],
          last_rowid = 1\<rparr>)"
    by (simp add: add_news_def insert_article_def generate_content_hash_def
          dict_get_default_def dict_get_def Let_def)
  ultimately show ?thesis by simp
qed

section \<open>The article store: selection\<close>








text \<open>
  A batch of two articles that \<open>add_news\<close> inserts into the empty table within one
  second (the hash of an article is here its content): the two rows carry the same
  timestamp.
\<close>

lemma add_news_within_one_second:
  "add_news (\<lambda>db article. False) (\<lambda>content. content) (\<lambda>i. 1000)
     [[(''title'', ''First''), (''body'', ''Body one'')],
      [(''title'', ''Second''), (''body'', ''Body two'')]]
     \<lparr>rows = [], last_rowid = 0\<rparr>
   = (2,
      \<lparr>rows = [\<lparr>row_id = 1, title = ''First'', source = '''', date = '''', url = '''',
                 body = ''Body one'', category = '''', bias = None,
                 rewritten_article = None, content_hash = ''FirstBody one'',
                 created_at = 1000\<rparr>,
               \<lparr>row_id = 2, title = ''Second'', source = '''', date = '''', url = '''',
                 body = ''Body two'', category = '''', bias = None,
                 rewritten_article = None, content_hash = ''SecondBody two'',
                 created_at = 1000\<rparr>],
        last_rowid = 2\<rparr>)"
  by (simp add: add_news_def insert_article_def generate_content_hash_def
        dict_get_default_def dict_get_def Let_def)


text \<open>
  The selection with limit 2 on a table of four rows with four different timestamps,
  the second of them processed: the two newest unprocessed rows, the newer one first.
\<close>

lemma prepare_data_for_llm_newest_two:
  "prepare_data_for_llm False 2 True
     \<lparr>rows = [\<lparr>row_id = 1, title = ''First'', source = ''wire'', date = ''2025-01-01'',
                url = ''u1'', body = ''Body one'', category = ''news'', bias = None,
                rewritten_article = None, content_hash = ''h1'', created_at = 1000\<rparr>,
              \<lparr>row_id = 2, title = ''Second'', source = ''wire'', date = ''2025-01-02'',
                url = ''u2'', body = ''Body two'', category = ''news'',
                bias = Some ''{}'', rewritten_article = Some ''Body two'',
                content_hash = ''h2'', created_at = 2000\<rparr>,
              \<lparr>row_id = 3, title = ''Third'', source = ''wire'', date = ''2025-01-03'',
                url = ''u3'', body = ''Body three'', category = ''news'', bias = None,
                rewritten_article = None, content_hash = ''h3'', created_at = 3000\<rparr>,
              \<lparr>row_id = 4, title = ''Fourth'', source = ''wire'', date = ''2025-01-04'',
                url = ''u4'', body = ''Body four'', category = ''news'', bias = None,
                rewritten_article = None, content_hash = ''h4'', created_at = 4000\<rparr>],
       last_rowid = 4\<rparr>
   = Inr [[(''title'', ''Fourth''), (''body'', ''Body four'')],
          [(''title'', ''Third''), (''body'', ''Body three'')]]"
  by (simp add: prepare_data_for_llm_def select_rows_def sql_limit_def
        order_by_created_at_desc_def)



section \<open>The article store: write-back\<close>

lemma update_where_title_length: "length (update_where_title b w t rs) = length rs"
  by (simp add: update_where_title_def)

lemma update_where_title_nth:
  "i < length rs \<Longrightarrow> update_where_title b w t rs ! i =
     (if title (rs ! i) = t then (rs ! i)\<lparr>bias := Some b, rewritten_article := Some w\<rparr>
      else rs ! i)"
  by (simp add: update_where_title_def)

lemma add_bias_loop_frame:
  "add_bias_loop e ds rs = Inr rs' \<Longrightarrow>
     length rs' = length rs
     \<and> (\<forall>i < length rs.
          same_other_columns (rs ! i) (rs' ! i)
          \<and> ((\<forall>d \<in> set ds. dict_get d ''title'' \<noteq> Some (title (rs ! i))) \<longrightarrow> rs' ! i = rs ! i)
          \<and> (\<forall>j < length rs. title (rs ! j) = title (rs ! i) \<longrightarrow>
                (rs' ! i = rs ! i \<and> rs' ! j = rs ! j)
                \<or> (bias (rs' ! i) = bias (rs' ! j)
                    \<and> rewritten_article (rs' ! i) = rewritten_article (rs' ! j))))"
proof (induction ds arbitrary: rs)
  case Nil
  then show ?case by (simp add: same_other_columns_def)
next
  case (Cons d ds)
  from Cons.prems obtain b w t where
    keys: "dict_get d ''bias'' = Some b" "dict_get d ''rewritten_article'' = Some w"
          "dict_get d ''title'' = Some t"
    and rest: "add_bias_loop e ds (update_where_title b w t rs) = Inr rs'"
    by (auto split: option.splits if_splits)
  let ?rs1 = "update_where_title b w t rs"
  have len1: "length ?rs1 = length rs" by (rule update_where_title_length)
  from Cons.IH [OF rest] have
    len: "length rs' = length ?rs1"
    and ih: "\<And>i. i < length ?rs1 \<Longrightarrow>
          same_other_columns (?rs1 ! i) (rs' ! i)
          \<and> ((\<forall>d \<in> set ds. dict_get d ''title'' \<noteq> Some (title (?rs1 ! i))) \<longrightarrow> rs' ! i = ?rs1 ! i)
          \<and> (\<forall>j < length ?rs1. title (?rs1 ! j) = title (?rs1 ! i) \<longrightarrow>
                (rs' ! i = ?rs1 ! i \<and> rs' ! j = ?rs1 ! j)
                \<or> (bias (rs' ! i) = bias (rs' ! j)
                    \<and> rewritten_article (rs' ! i) = rewritten_article (rs' ! j)))"
    by blast+
  have title1: "\<And>i. i < length rs \<Longrightarrow> title (?rs1 ! i) = title (rs ! i)"
    by (simp add: update_where_title_nth)
  have cols1: "\<And>i. i < length rs \<Longrightarrow> same_other_columns (rs ! i) (?rs1 ! i)"
    by (simp add: update_where_title_nth same_other_columns_def)
  show ?case
  proof (intro conjI allI impI)
    show "length rs' = length rs" using len len1 by simp
  next
    fix i assume i: "i < length rs"
    from ih [of i] i len1 have "same_other_columns (?rs1 ! i) (rs' ! i)" by simp
    with cols1 [OF i] show "same_other_columns (rs ! i) (rs' ! i)"
      by (simp add: same_other_columns_def)
  next
    fix i assume i: "i < length rs"
      and no: "\<forall>d \<in> set (d # ds). dict_get d ''title'' \<noteq> Some (title (rs ! i))"
    from no keys(3) have "title (rs ! i) \<noteq> t" by auto
    with i have "?rs1 ! i = rs ! i" by (simp add: update_where_title_nth)
    moreover from no have "\<forall>d \<in> set ds. dict_get d ''title'' \<noteq> Some (title (?rs1 ! i))"
      using title1 [OF i] by simp
    with ih [of i] i len1 have "rs' ! i = ?rs1 ! i" by simp
    ultimately show "rs' ! i = rs ! i" by simp
  next
    fix i j assume i: "i < length rs" and j: "j < length rs"
      and eq: "title (rs ! j) = title (rs ! i)"
    from eq i j have eq1: "title (?rs1 ! j) = title (?rs1 ! i)" by (simp add: title1)
    from ih [of i] i j len1 eq1 have
      "(rs' ! i = ?rs1 ! i \<and> rs' ! j = ?rs1 ! j)
       \<or> (bias (rs' ! i) = bias (rs' ! j)
           \<and> rewritten_article (rs' ! i) = rewritten_article (rs' ! j))"
      by simp
    then show "(rs' ! i = rs ! i \<and> rs' ! j = rs ! j)
               \<or> (bias (rs' ! i) = bias (rs' ! j)
                   \<and> rewritten_article (rs' ! i) = rewritten_article (rs' ! j))"
    proof
      assume u: "rs' ! i = ?rs1 ! i \<and> rs' ! j = ?rs1 ! j"
      show ?thesis
      proof (cases "title (rs ! i) = t")
        case True
        with u i j eq show ?thesis by (simp add: update_where_title_nth)
      next
        case False
        with u i j eq show ?thesis by (simp add: update_where_title_nth)
      qed
    next
      assume "bias (rs' ! i) = bias (rs' ! j)
              \<and> rewritten_article (rs' ! i) = rewritten_article (rs' ! j)"
      then show ?thesis by simp
    qed
  qed
qed

lemma add_bias_rows:
  "add_bias e ds db = (ex, db') \<Longrightarrow>
     last_rowid db' = last_rowid db
     \<and> (rows db' = rows db \<or> add_bias_loop e ds (rows db) = Inr (rows db'))"
  by (auto simp: add_bias_def split: sum.splits if_splits)

lemma add_bias_single:
  "dict_get d ''bias'' = Some b \<Longrightarrow> dict_get d ''rewritten_article'' = Some w
     \<Longrightarrow> dict_get d ''title'' = Some t \<Longrightarrow> \<not> e d (rows db)
     \<Longrightarrow> add_bias e [d] db = (None, db\<lparr>rows := update_where_title b w t (rows db)\<rparr>)"
  by (simp add: add_bias_def)

text \<open>
  Claim C9. For every list of results and every table, after \<open>add_bias\<close> the table has
  the same rows in the same order, and each row has kept its id, title, source, date,
  url, body, category, content hash and creation time; a row whose title is the title of
  no result is unchanged altogether; two rows with the same title are either both
  unchanged or end with the same bias and the same rewritten article. A single result
  with its three keys, met by no storage error, sets the bias and the rewritten article
  of exactly the rows with its title.
\<close>

theorem add_bias_frame:
  "(add_bias sql_error llm_data db = (ex, db') \<longrightarrow>
      last_rowid db' = last_rowid db
      \<and> length (rows db') = length (rows db)
      \<and> (\<forall>i < length (rows db).
           row_id (rows db' ! i) = row_id (rows db ! i)
           \<and> title (rows db' ! i) = title (rows db ! i)
           \<and> source (rows db' ! i) = source (rows db ! i)
           \<and> date (rows db' ! i) = date (rows db ! i)
           \<and> url (rows db' ! i) = url (rows db ! i)
           \<and> body (rows db' ! i) = body (rows db ! i)
           \<and> category (rows db' ! i) = category (rows db ! i)
           \<and> content_hash (rows db' ! i) = content_hash (rows db ! i)
           \<and> created_at (rows db' ! i) = created_at (rows db ! i)
           \<and> ((\<forall>d \<in> set llm_data. dict_get d ''title'' \<noteq> Some (title (rows db ! i)))
                \<longrightarrow> rows db' ! i = rows db ! i)
           \<and> (\<forall>j < length (rows db). title (rows db ! j) = title (rows db ! i) \<longrightarrow>
                 (rows db' ! i = rows db ! i \<and> rows db' ! j = rows db ! j)
                 \<or> (bias (rows db' ! i) = bias (rows db' ! j)
                     \<and> rewritten_article (rows db' ! i) = rewritten_article (rows db' ! j)))))
   \<and> (dict_get d ''bias'' = Some b \<and> dict_get d ''rewritten_article'' = Some w
       \<and> dict_get d ''title'' = Some t \<and> \<not> sql_error d (rows db)
      \<longrightarrow> add_bias sql_error [d] db
            = (None, db\<lparr>rows := map (\<lambda>x. if title x = t
                                          then x\<lparr>bias := Some b, rewritten_article := Some w\<rparr>
                                          else x) (rows db)\<rparr>))"
proof (intro conjI impI)
  assume "dict_get d ''bias'' = Some b \<and> dict_get d ''rewritten_article'' = Some w
       \<and> dict_get d ''title'' = Some t \<and> \<not> sql_error d (rows db)"
  then show "add_bias sql_error [d] db
            = (None, db\<lparr>rows := map (\<lambda>x. if title x = t
                                          then x\<lparr>bias := Some b, rewritten_article := Some w\<rparr>
                                          else x) (rows db)\<rparr>)"
    using add_bias_single [of d b w t sql_error db] by (simp add: update_where_title_def)
next
  assume a: "add_bias sql_error llm_data db = (ex, db')"
  from add_bias_rows [OF a] show "last_rowid db' = last_rowid db" by simp
  from add_bias_rows [OF a]
  have c: "rows db' = rows db \<or> add_bias_loop sql_error llm_data (rows db) = Inr (rows db')"
    by simp
  have f: "length (rows db') = length (rows db)
     \<and> (\<forall>i < length (rows db).
          same_other_columns (rows db ! i) (rows db' ! i)
          \<and> ((\<forall>d \<in> set llm_data. dict_get d ''title'' \<noteq> Some (title (rows db ! i)))
               \<longrightarrow> rows db' ! i = rows db ! i)
          \<and> (\<forall>j < length (rows db). title (rows db ! j) = title (rows db ! i) \<longrightarrow>
                (rows db' ! i = rows db ! i \<and> rows db' ! j = rows db ! j)
                \<or> (bias (rows db' ! i) = bias (rows db' ! j)
                    \<and> rewritten_article (rows db' ! i) = rewritten_article (rows db' ! j))))"
    using c
  proof
    assume "rows db' = rows db"
    then show ?thesis by (simp add: same_other_columns_def)
  next
    assume "add_bias_loop sql_error llm_data (rows db) = Inr (rows db')"
    then show ?thesis by (rule add_bias_loop_frame)
  qed
  from f show "length (rows db') = length (rows db)" by simp
  from f show "\<forall>i < length (rows db).
           row_id (rows db' ! i) = row_id (rows db ! i)
           \<and> title (rows db' ! i) = title (rows db ! i)
           \<and> source (rows db' ! i) = source (rows db ! i)
           \<and> date (rows db' ! i) = date (rows db ! i)
           \<and> url (rows db' ! i) = url (rows db ! i)
           \<and> body (rows db' ! i) = body (rows db ! i)
           \<and> category (rows db' ! i) = category (rows db ! i)
           \<and> content_hash (rows db' ! i) = content_hash (rows db ! i)
           \<and> created_at (rows db' ! i) = created_at (rows db ! i)
           \<and> ((\<forall>d \<in> set llm_data. dict_get d ''title'' \<noteq> Some (title (rows db ! i)))
                \<longrightarrow> rows db' ! i = rows db ! i)
           \<and> (\<forall>j < length (rows db). title (rows db ! j) = title (rows db ! i) \<longrightarrow>
                 (rows db' ! i = rows db ! i \<and> rows db' ! j = rows db ! j)
                 \<or> (bias (rows db' ! i) = bias (rows db' ! j)
                     \<and> rewritten_article (rows db' ! i) = rewritten_article (rows db' ! j)))"
    unfolding same_other_columns_def by blast
qed

theorem add_bias_frame_witness:
  "add_bias (\<lambda>d rs. False)
     [[(''title'', ''Rates rise''), (''bias'', ''{score: 70}''),
       (''rewritten_article'', ''The bank raised its rate.'')]]
     \<lparr>rows = [\<lparr>row_id = 1, title = ''Rates rise'', source = ''wire'', date = ''2025-01-01'',
                url = ''u1'', body = ''Shock as bank hikes rates'', category = ''news'',
                bias = None, rewritten_article = None, content_hash = ''h1'',
                created_at = 1000\<rparr>,
              \<lparr>row_id = 2, title = ''Storm nears'', source = ''wire'', date = ''2025-01-02'',
                url = ''u2'', body = ''A storm is coming'', category = ''news'',
                bias = None, rewritten_article = None, content_hash = ''h2'',
                created_at = 2000\<rparr>,
              \<lparr>row_id = 3, title = ''Rates rise'', source = ''other'', date = ''2025-01-03'',
                url = ''u3'', body = ''Rates went up again'', category = ''news'',
                bias = None, rewritten_article = None, content_hash = ''h3'',
                created_at = 3000\<rparr>],
       last_rowid = 3\<rparr>
   = (None,
      \<lparr>rows = [\<lparr>row_id = 1, title = ''Rates rise'', source = ''wire'', date = ''2025-01-01'',
                url = ''u1'', body = ''Shock as bank hikes rates'', category = ''news'',
                bias = Some ''{score: 70}'',
                rewritten_article = Some ''The bank raised its rate.'',
                content_hash = ''h1'', created_at = 1000\<rparr>,
              \<lparr>row_id = 2, title = ''Storm nears'', source = ''wire'', date = ''2025-01-02'',
                url = ''u2'', body = ''A storm is coming'', category = ''news'',
                bias = None, rewritten_article = None, content_hash = ''h2'',
                created_at = 2000\<rparr>,
              \<lparr>row_id = 3, title = ''Rates rise'', source = ''other'', date = ''2025-01-03'',
                url = ''u3'', body = ''Rates went up again'', category = ''news'',
                bias = Some ''{score: 70}'',
                rewritten_article = Some ''The bank raised its rate.'',
                content_hash = ''h3'', created_at = 3000\<rparr>],
       last_rowid = 3\<rparr>)"
proof -
  let ?d = "[(''title'', ''Rates rise''), (''bias'', ''{score: 70}''),
             (''rewritten_article'', ''The bank raised its rate.'')]"
  have k: "dict_get ?d ''bias'' = Some ''{score: 70}''
           \<and> dict_get ?d ''rewritten_article'' = Some ''The bank raised its rate.''
           \<and> dict_get ?d ''title'' = Some ''Rates rise''"
    by (simp add: dict_get_def)
  show ?thesis
    using add_bias_frame [where sql_error = "\<lambda>d rs. False" and d = ?d
            and b = "''{score: 70}''" and w = "''The bank raised its rate.''"
            and t = "''Rates rise''", THEN conjunct2] k
    by simp
qed

end
